theory Spec2Isabelle
  imports Main
begin

section \<open>JavaScript values and strings\<close>

text \<open>
  Strings are lists of 8-bit characters. The case mappings and \<open>trim\<close> are the
  JavaScript ones on ASCII text (HTTP methods, header names and the header values used
  here are ASCII); other characters are left as they are.
\<close>

definition lowerLetters :: string where
  "lowerLetters = ''abcdefghijklmnopqrstuvwxyz''"

definition upperLetters :: string where
  "upperLetters = ''ABCDEFGHIJKLMNOPQRSTUVWXYZ''"

definition toUpperCaseChar :: "char \<Rightarrow> char" where
  "toUpperCaseChar c = (case map_of (zip lowerLetters upperLetters) c of Some u \<Rightarrow> u | None \<Rightarrow> c)"

definition toLowerCaseChar :: "char \<Rightarrow> char" where
  "toLowerCaseChar c = (case map_of (zip upperLetters lowerLetters) c of Some l \<Rightarrow> l | None \<Rightarrow> c)"

definition toUpperCase :: "string \<Rightarrow> string" where
  "toUpperCase s = map toUpperCaseChar s"

definition toLowerCase :: "string \<Rightarrow> string" where
  "toLowerCase s = map toLowerCaseChar s"

text \<open>White space of \<open>String.prototype.trim\<close> in the 8-bit range.\<close>

definition isWhiteSpace :: "char \<Rightarrow> bool" where
  "isWhiteSpace c = (c \<in> set [CHR 0x09, CHR 0x0A, CHR 0x0B, CHR 0x0C, CHR 0x0D, CHR 0x20, CHR 0xA0])"

definition trim :: "string \<Rightarrow> string" where
  "trim s = rev (dropWhile isWhiteSpace (rev (dropWhile isWhiteSpace s)))"

text \<open>\<open>s.split(c)\<close> for a one-character separator: the empty string gives one empty piece.\<close>

fun split :: "char \<Rightarrow> string \<Rightarrow> string list" where
  "split c [] = [[]]"
| "split c (x # xs) =
     (if x = c then [] # split c xs
      else (case split c xs of [] \<Rightarrow> [[x]] | y # ys \<Rightarrow> (x # y) # ys))"

text \<open>\<open>xs.join(sep)\<close>.\<close>

fun join :: "string \<Rightarrow> string list \<Rightarrow> string" where
  "join sep [] = []"
| "join sep [x] = x"
| "join sep (x # y # ys) = x @ sep @ join sep (y # ys)"

fun startsWith :: "string \<Rightarrow> string \<Rightarrow> bool" where
  "startsWith s [] = True"
| "startsWith [] (p # ps) = False"
| "startsWith (c # cs) (p # ps) = (c = p \<and> startsWith cs ps)"

text \<open>\<open>s.indexOf(sub) >= 0\<close>.\<close>

fun includesStr :: "string \<Rightarrow> string \<Rightarrow> bool" where
  "includesStr [] sub = (sub = [])"
| "includesStr (c # cs) sub = (startsWith (c # cs) sub \<or> includesStr cs sub)"

text \<open>Decimal rendering of an integer, as \<open>String(n)\<close> gives it below \<open>10^21\<close>.\<close>

definition digit :: "nat \<Rightarrow> char" where
  "digit n = ''0123456789'' ! n"

function showNat :: "nat \<Rightarrow> string" where
  "showNat n = (if n < 10 then [digit n] else showNat (n div 10) @ [digit (n mod 10)])"
  by pat_completeness auto
termination
  by (relation "measure id") auto

declare showNat.simps [simp del]

definition showInt :: "int \<Rightarrow> string" where
  "showInt i = (if i < 0 then CHR ''-'' # showNat (nat (- i)) else showNat (nat i))"

text \<open>
  The values a handler can pass as a message, a printf argument or a chunk. A
  non-integer number (\<open>NaN\<close> and the infinities too) is given by its \<open>String\<close>
  rendering; an object that is not an \<open>Error\<close> (a plain object, an array) by what
  \<open>JSON.stringify\<close> does with it and by its \<open>String\<close> rendering; an \<open>ArrayBuffer\<close> by
  its bytes. Functions, symbols, big integers and the \<open>Buffer\<close> objects of the Deno library
  are left out.

  \<open>JSON.stringify\<close> of an object returns its serialisation, or throws a \<open>TypeError\<close>
  (the object has a cyclic structure, or holds a big integer), given by its message.
\<close>

datatype number = Integer int | NonInteger string

datatype serialisation = Serialised string | Unserialisable string

datatype jsdata =
    JUndefined
  | JNull
  | JBool bool
  | JNum number
  | JStr string
  | JObj serialisation string
  | JArrayBuffer string

text \<open>\<open>class HTTPError extends Error\<close>: status, message and content-type tag.\<close>

datatype HTTPError = HTTPError int string string

text \<open>
  Any value that can be thrown or handed to \<open>res.error\<close>: a data value, an \<open>Error\<close>
  that is not an \<open>HTTPError\<close> (its name and message), or an \<open>HTTPError\<close>.
\<close>

datatype jsval =
    Data jsdata
  | JError string string
  | JHTTPError HTTPError

fun truthy :: "jsdata \<Rightarrow> bool" where
  "truthy JUndefined = False"
| "truthy JNull = False"
| "truthy (JBool b) = b"
| "truthy (JNum (Integer i)) = (i \<noteq> 0)"
| "truthy (JNum (NonInteger s)) = (s \<noteq> ''NaN'')"
| "truthy (JStr s) = (s \<noteq> [])"
| "truthy (JObj j s) = True"
| "truthy (JArrayBuffer b) = True"

text \<open>\<open>String(v)\<close>.\<close>

fun String :: "jsdata \<Rightarrow> string" where
  "String JUndefined = ''undefined''"
| "String JNull = ''null''"
| "String (JBool b) = (if b then ''true'' else ''false'')"
| "String (JNum (Integer i)) = showInt i"
| "String (JNum (NonInteger s)) = s"
| "String (JStr s) = s"
| "String (JObj j s) = s"
| "String (JArrayBuffer b) = ''[object ArrayBuffer]''"

text \<open>The loose comparison \<open>v == ''\<close>; an object is compared through its primitive rendering.\<close>

fun looseEqEmpty :: "jsdata \<Rightarrow> bool" where
  "looseEqEmpty JUndefined = False"
| "looseEqEmpty JNull = False"
| "looseEqEmpty (JBool b) = (\<not> b)"
| "looseEqEmpty (JNum (Integer i)) = (i = 0)"
| "looseEqEmpty (JNum (NonInteger s)) = False"
| "looseEqEmpty (JStr s) = (s = [])"
| "looseEqEmpty (JObj j s) = (s = [])"
| "looseEqEmpty (JArrayBuffer b) = False"

text \<open>Objects of the log and of \<open>reqInfo\<close>: ordered key-value lists; a later key of a literal
  or spread replaces the value of an earlier one.\<close>

type_synonym jsobject = "(string \<times> jsval) list"

fun setProp :: "string \<Rightarrow> jsval \<Rightarrow> jsobject \<Rightarrow> jsobject" where
  "setProp k v [] = [(k, v)]"
| "setProp k v ((k', v') # kvs) = (if k' = k then (k, v) # kvs else (k', v') # setProp k v kvs)"

definition spread :: "jsobject \<Rightarrow> jsobject \<Rightarrow> jsobject" where
  "spread base more = fold (\<lambda>(k, v). setProp k v) more base"

definition str :: "string \<Rightarrow> jsval" where
  "str s = Data (JStr s)"

text \<open>How a statement completes: normally with a value, or by throwing one.\<close>

datatype 'a completion = Normal 'a | Throw jsval

text \<open>\<open>JSON.stringify(v)\<close> for an object \<open>v\<close>.\<close>

fun stringify :: "serialisation \<Rightarrow> string completion" where
  "stringify (Serialised j) = Normal j"
| "stringify (Unserialisable m) = Throw (JError ''TypeError'' m)"

section \<open>Platform: Headers and the stream controller\<close>

text \<open>
  The \<open>Headers\<close> object of the Fetch standard: names are case-insensitive, \<open>set\<close>
  replaces every entry of the name, \<open>append\<close> adds one, \<open>get\<close> joins the values
  of a name with a comma and a space. Leading and trailing HTTP white space of a value is
  removed. Names and values are taken to be valid, so no call throws.
\<close>

type_synonym Headers = "(string \<times> string) list"

definition isHttpWhiteSpace :: "char \<Rightarrow> bool" where
  "isHttpWhiteSpace c = (c \<in> set [CHR 0x09, CHR 0x0A, CHR 0x0D, CHR 0x20])"

definition normalizeValue :: "string \<Rightarrow> string" where
  "normalizeValue v = rev (dropWhile isHttpWhiteSpace (rev (dropWhile isHttpWhiteSpace v)))"

definition headersSet :: "Headers \<Rightarrow> string \<Rightarrow> string \<Rightarrow> Headers" where
  "headersSet hs k v =
     filter (\<lambda>(n, _). n \<noteq> toLowerCase k) hs @ [(toLowerCase k, normalizeValue v)]"

definition headersAppend :: "Headers \<Rightarrow> string \<Rightarrow> string \<Rightarrow> Headers" where
  "headersAppend hs k v = hs @ [(toLowerCase k, normalizeValue v)]"

definition headersGet :: "Headers \<Rightarrow> string \<Rightarrow> string option" where
  "headersGet hs k =
     (case map snd (filter (\<lambda>(n, _). n = toLowerCase k) hs) of
        [] \<Rightarrow> None
      | vs \<Rightarrow> Some (join '', '' vs))"

text \<open>
  The controller of a \<open>ReadableStream\<close> (WHATWG Streams): \<open>enqueue\<close> and \<open>close\<close>
  throw a \<open>TypeError\<close> once a close was requested. The consumer of the stream is not
  modelled, so the stream is never cancelled from outside.
\<close>

record ReadableStreamDefaultController =
  queue :: "string list"
  closeRequested :: bool

definition streamTypeError :: jsval where
  "streamTypeError = JError ''TypeError'' ''The stream controller cannot close or enqueue''"

definition enqueue :: "ReadableStreamDefaultController \<Rightarrow> string \<Rightarrow> jsval + ReadableStreamDefaultController" where
  "enqueue c chunk =
     (if closeRequested c then Inl streamTypeError else Inr (c\<lparr>queue := queue c @ [chunk]\<rparr>))"

definition close :: "ReadableStreamDefaultController \<Rightarrow> jsval + ReadableStreamDefaultController" where
  "close c = (if closeRequested c then Inl streamTypeError else Inr (c\<lparr>closeRequested := True\<rparr>))"

section \<open>The response (response.ts) and the error interceptor (error.ts)\<close>

text \<open>
  Modelled from the spec: the \<open>Logger\<close> class (logger.ts is not among the sources).
  A call \<open>log.warn(entry)\<close>, \<open>log.debug(entry)\<close> or \<open>log.error(entry)\<close> records one
  structured entry at the level of the method called. The logger is shared by the app
  and its responses; what it has recorded is kept in the field \<open>log\<close> of the response.
\<close>

type_synonym Logger = "(string \<times> jsobject) list"

record CafResponse =
  reqInfo :: jsobject
  log :: Logger
  statusCode :: int
  headersSent :: bool
  sent :: bool
  streamCtrl :: ReadableStreamDefaultController
  headersObj :: Headers
  finished :: bool
  body :: "string option"

definition newCafResponse :: "jsobject \<Rightarrow> Logger \<Rightarrow> CafResponse" where
  "newCafResponse ri logger =
     \<lparr>reqInfo = ri, log = logger, statusCode = 200, headersSent = False, sent = False,
      streamCtrl = \<lparr>queue = [], closeRequested = False\<rparr>, headersObj = [],
      finished = False, body = None\<rparr>"

definition logWarn :: "CafResponse \<Rightarrow> jsobject \<Rightarrow> CafResponse" where
  "logWarn r entry = r\<lparr>log := log r @ [(''warn'', entry)]\<rparr>"

definition logDebug :: "CafResponse \<Rightarrow> jsobject \<Rightarrow> CafResponse" where
  "logDebug r entry = r\<lparr>log := log r @ [(''debug'', entry)]\<rparr>"

definition logError :: "CafResponse \<Rightarrow> jsobject \<Rightarrow> CafResponse" where
  "logError r entry = r\<lparr>log := log r @ [(''error'', entry)]\<rparr>"

fun StringV :: "jsval \<Rightarrow> string" where
  "StringV (Data d) = String d"
| "StringV (JError n m) = (if m = [] then n else if n = [] then m else n @ '': '' @ m)"
| "StringV (JHTTPError (HTTPError s m t)) = (if m = [] then ''HTTPError'' else ''HTTPError: '' @ m)"

definition propString :: "jsobject \<Rightarrow> string \<Rightarrow> string" where
  "propString obj k = (case map_of obj k of None \<Rightarrow> ''undefined'' | Some v \<Rightarrow> StringV v)"

definition SHORT_CONTENT_TYPES :: "string \<Rightarrow> string option" where
  "SHORT_CONTENT_TYPES = [''text'' \<mapsto> ''text/plain'', ''json'' \<mapsto> ''application/json'']"

definition status :: "CafResponse \<Rightarrow> int \<Rightarrow> CafResponse" where
  "status r s = r\<lparr>statusCode := s\<rparr>"

definition res_set :: "CafResponse \<Rightarrow> string \<Rightarrow> string \<Rightarrow> CafResponse" where
  "res_set r k v = r\<lparr>headersObj := headersSet (headersObj r) k v\<rparr>"

definition res_get :: "CafResponse \<Rightarrow> string \<Rightarrow> string" where
  "res_get r k = (case headersGet (headersObj r) k of None \<Rightarrow> [] | Some v \<Rightarrow> v)"

definition res_append :: "CafResponse \<Rightarrow> string \<Rightarrow> string \<Rightarrow> CafResponse" where
  "res_append r k v = r\<lparr>headersObj := headersAppend (headersObj r) k v\<rparr>"

definition res_type :: "CafResponse \<Rightarrow> string \<Rightarrow> CafResponse" where
  "res_type r ct = res_set r ''Content-Type'' (case SHORT_CONTENT_TYPES ct of Some t \<Rightarrow> t | None \<Rightarrow> ct)"

definition sendHead :: "CafResponse \<Rightarrow> CafResponse" where
  "sendHead r = (if headersSent r then r else r\<lparr>headersSent := True, sent := True\<rparr>)"

text \<open>
  \<open>write(chunk)\<close>: the chunk is turned into a string and encoded; the encoding is the
  identity on the byte strings of the model.
\<close>

definition res_write :: "CafResponse \<Rightarrow> jsdata \<Rightarrow> unit completion \<times> CafResponse" where
  "res_write r chunk =
     (let r1 = sendHead r;
          bytes = (case chunk of JArrayBuffer b \<Rightarrow> b | _ \<Rightarrow> String chunk)
      in case enqueue (streamCtrl r1) bytes of
           Inl e \<Rightarrow> (Throw e, r1)
         | Inr c \<Rightarrow>
             (Normal (),
              r1\<lparr>streamCtrl := c,
                 body := (case body r1 of None \<Rightarrow> Some bytes | Some b \<Rightarrow> Some (b @ bytes))\<rparr>))"

definition endWarning :: jsobject where
  "endWarning =
     [(''err'', JError ''Error'' ''Called `res.end()` after response was already finished'')]"

definition responseEntry :: "CafResponse \<Rightarrow> jsobject" where
  "responseEntry r =
     spread (reqInfo r)
       [(''status'', Data (JNum (Integer (statusCode r)))),
        (''level'', str (if statusCode r > 499 then ''warn'' else ''debug'')),
        (''type'', str ''response''),
        (''msg'', str (''Sent '' @ showInt (statusCode r) @ '' response to ''
                        @ propString (reqInfo r) ''method'' @ '' '' @ propString (reqInfo r) ''path''))]"

definition res_end :: "CafResponse \<Rightarrow> jsdata \<Rightarrow> unit completion \<times> CafResponse" where
  "res_end r b =
     (let r1 = (if finished r then logWarn r endWarning else r)
      in case (if truthy b then res_write r1 b else (Normal (), sendHead r1)) of
           (Throw e, r2) \<Rightarrow> (Throw e, r2)
         | (Normal _, r2) \<Rightarrow>
             (case close (streamCtrl r2) of
                Inl e \<Rightarrow> (Throw e, r2)
              | Inr c \<Rightarrow>
                  (let r3 = r2\<lparr>streamCtrl := c\<rparr>
                   in (Normal (), (logDebug r3 (responseEntry r3))\<lparr>finished := True\<rparr>))))"

text \<open>types.ts: \<open>getContentTypeFromDataType\<close>.\<close>

definition getContentTypeFromDataType :: "jsdata \<Rightarrow> string option" where
  "getContentTypeFromDataType d =
     (if looseEqEmpty d \<or> d = JNull \<or> d = JUndefined then None
      else (case d of
              JArrayBuffer b \<Rightarrow> None
            | JObj j s \<Rightarrow> Some ''application/json''
            | _ \<Rightarrow> Some ''text/plain''))"

text \<open>
  error.ts: \<open>anythingToError\<close> and \<open>handleError\<close>. For a value of type object that is
  no \<open>Error\<close>, \<open>anythingToError\<close> calls \<open>JSON.stringify\<close>, and what that throws leaves
  \<open>anythingToError\<close> and \<open>handleError\<close> before anything is logged or ended. The
  serialisation of \<open>null\<close> is \<open>null\<close>, that of an \<open>ArrayBuffer\<close> is \<open>{}\<close>.
\<close>

fun anythingToError :: "jsval \<Rightarrow> HTTPError completion" where
  "anythingToError (JHTTPError h) = Normal h"
| "anythingToError (JError n m) = Normal (HTTPError 500 m ''text'')"
| "anythingToError (Data JNull) = Normal (HTTPError 500 ''null'' ''json'')"
| "anythingToError (Data (JObj ser s)) =
     (case stringify ser of
        Throw e \<Rightarrow> Throw e
      | Normal j \<Rightarrow> Normal (HTTPError 500 j ''json''))"
| "anythingToError (Data (JArrayBuffer b)) = Normal (HTTPError 500 ''{}'' ''json'')"
| "anythingToError (Data d) = Normal (HTTPError 500 (String d) ''text'')"

definition handleError :: "jsval \<Rightarrow> jsobject \<Rightarrow> CafResponse \<Rightarrow> HTTPError completion \<times> CafResponse" where
  "handleError err ri r =
     (let originalErr = err
      in case anythingToError err of
           Throw e \<Rightarrow> (Throw e, r)
         | Normal herr \<Rightarrow>
             (case herr of
                HTTPError hs hm ht \<Rightarrow>
                  (if hs > 499 then
                     (let r1 = logError r (spread ri [(''type'', str ''route''), (''err'', originalErr)])
                      in if \<not> finished r1 then
                           (case res_end (res_type (status r1 hs) ht) (JStr []) of
                              (Throw e, r2) \<Rightarrow> (Throw e, r2)
                            | (Normal _, r2) \<Rightarrow> (Normal (HTTPError hs hm ht), r2))
                         else (Normal (HTTPError hs hm ht), r1))
                   else (Normal (HTTPError hs hm ht), r))))"

text \<open>
  \<open>res.error(status, message, ...args)\<close>. The formatter \<open>sprintf\<close> of the Deno standard
  library is a parameter. \<open>new HTTPError(status, message, type)\<close> keeps the message as a
  string, the empty one for \<open>undefined\<close>. \<open>formatMessage\<close> is the chain of \<open>if\<close>s that
  turns the message into what is written; its \<open>JSON.stringify\<close> may throw, after the
  status was set and before the content type is.
\<close>

definition formatMessage :: "(string \<Rightarrow> string list \<Rightarrow> string) \<Rightarrow> jsdata \<Rightarrow> jsdata list
    \<Rightarrow> jsdata completion" where
  "formatMessage sprintf m args =
     (case m of
        JStr t \<Rightarrow> Normal (JStr (sprintf t (map String args)))
      | JObj ser s \<Rightarrow>
          (if getContentTypeFromDataType m = Some ''application/json''
           then (case stringify ser of
                   Throw e \<Rightarrow> Throw e
                 | Normal j \<Rightarrow> Normal (JStr j))
           else Normal m)
      | _ \<Rightarrow>
          Normal (if getContentTypeFromDataType m = Some ''text/plain'' then JStr (String m) else m))"

definition errorMessage :: "jsdata \<Rightarrow> string" where
  "errorMessage m = (if m = JUndefined then [] else String m)"

definition error :: "(string \<Rightarrow> string list \<Rightarrow> string) \<Rightarrow> CafResponse \<Rightarrow> jsval \<Rightarrow> jsdata \<Rightarrow> jsdata list
    \<Rightarrow> HTTPError completion \<times> CafResponse" where
  "error sprintf r st m args =
     (case st of
        Data (JNum (Integer s)) \<Rightarrow>
          (let r1 = status r s;
               t = getContentTypeFromDataType m
           in case formatMessage sprintf m args of
                Throw e \<Rightarrow> (Throw e, r1)
              | Normal m' \<Rightarrow>
                  (let r2 = (case t of Some ct \<Rightarrow> res_type r1 ct | None \<Rightarrow> r1)
                   in case res_end r2 m' of
                        (Throw e, r3) \<Rightarrow> (Throw e, r3)
                      | (Normal _, r3) \<Rightarrow>
                          (Normal (HTTPError s (errorMessage m')
                                     (case t of Some ct \<Rightarrow> ct | None \<Rightarrow> ''text/plain'')), r3)))
      | _ \<Rightarrow> handleError st (reqInfo r) r)"

text \<open>The assertion helpers.\<close>

definition res_assert :: "(string \<Rightarrow> string list \<Rightarrow> string) \<Rightarrow> CafResponse \<Rightarrow> number \<Rightarrow> bool \<Rightarrow> string option
    \<Rightarrow> jsdata list \<Rightarrow> unit completion \<times> CafResponse" where
  "res_assert sprintf r st cond m args =
     (if \<not> cond then (Normal (), r)
      else (case error sprintf r (Data (JNum st)) (JStr (case m of None \<Rightarrow> [] | Some t \<Rightarrow> t)) args of
              (Throw e, r') \<Rightarrow> (Throw e, r')
            | (Normal herr, r') \<Rightarrow> (Throw (JHTTPError herr), r')))"

definition badRequest :: "(string \<Rightarrow> string list \<Rightarrow> string) \<Rightarrow> CafResponse \<Rightarrow> bool \<Rightarrow> string option
    \<Rightarrow> jsdata list \<Rightarrow> unit completion \<times> CafResponse" where
  "badRequest sprintf r cond m args = res_assert sprintf r (Integer 400) cond m args"

definition unauthorized :: "(string \<Rightarrow> string list \<Rightarrow> string) \<Rightarrow> CafResponse \<Rightarrow> bool \<Rightarrow> string option
    \<Rightarrow> jsdata list \<Rightarrow> unit completion \<times> CafResponse" where
  "unauthorized sprintf r cond m args = res_assert sprintf r (Integer 401) cond m args"

definition forbidden :: "(string \<Rightarrow> string list \<Rightarrow> string) \<Rightarrow> CafResponse \<Rightarrow> bool \<Rightarrow> string option
    \<Rightarrow> jsdata list \<Rightarrow> unit completion \<times> CafResponse" where
  "forbidden sprintf r cond m args = res_assert sprintf r (Integer 403) cond m args"

definition notFound :: "(string \<Rightarrow> string list \<Rightarrow> string) \<Rightarrow> CafResponse \<Rightarrow> bool \<Rightarrow> string option
    \<Rightarrow> jsdata list \<Rightarrow> unit completion \<times> CafResponse" where
  "notFound sprintf r cond m args = res_assert sprintf r (Integer 404) cond m args"

definition conflict :: "(string \<Rightarrow> string list \<Rightarrow> string) \<Rightarrow> CafResponse \<Rightarrow> bool \<Rightarrow> string option
    \<Rightarrow> jsdata list \<Rightarrow> unit completion \<times> CafResponse" where
  "conflict sprintf r cond m args = res_assert sprintf r (Integer 409) cond m args"

definition gone :: "(string \<Rightarrow> string list \<Rightarrow> string) \<Rightarrow> CafResponse \<Rightarrow> bool \<Rightarrow> string option
    \<Rightarrow> jsdata list \<Rightarrow> unit completion \<times> CafResponse" where
  "gone sprintf r cond m args = res_assert sprintf r (Integer 410) cond m args"

definition badType :: "(string \<Rightarrow> string list \<Rightarrow> string) \<Rightarrow> CafResponse \<Rightarrow> bool \<Rightarrow> string option
    \<Rightarrow> jsdata list \<Rightarrow> unit completion \<times> CafResponse" where
  "badType sprintf r cond m args = res_assert sprintf r (Integer 415) cond m args"

section \<open>CORS (cors.ts)\<close>

text \<open>
  A compiled \<open>RegExp\<close> of the platform is given by what its \<open>exec\<close> yields on a string:
  nothing, or the captured groups \<open>match[1]\<close>, \<open>match[2]\<close>, ... (a group that took no part
  is \<open>undefined\<close>).
\<close>

type_synonym RegExp = "string \<Rightarrow> string option list option"

datatype originItem = OriginString string | OriginRegExp RegExp

datatype originOption = OriginBool bool | OriginItem originItem | OriginList "originItem list"

datatype stringOrList = One string | Many "string list"

text \<open>An optional property is \<open>None\<close> when it is absent.\<close>

record CorsOptions =
  origin :: "originOption option"
  methods :: "stringOrList option"
  allowedHeaders :: "stringOrList option"
  exposedHeaders :: "stringOrList option"
  credentials :: "bool option"
  maxAge :: "jsdata option"

definition optionsOrigin :: "CorsOptions \<Rightarrow> originOption" where
  "optionsOrigin opts = (case origin opts of None \<Rightarrow> OriginItem (OriginString ''*'') | Some v \<Rightarrow> v)"

definition optionsMethods :: "CorsOptions \<Rightarrow> stringOrList" where
  "optionsMethods opts =
     (case methods opts of None \<Rightarrow> One ''GET,HEAD,PUT,PATCH,POST,DELETE'' | Some v \<Rightarrow> v)"

definition setVaryHeader :: "CafResponse \<Rightarrow> string \<Rightarrow> CafResponse" where
  "setVaryHeader res newValue =
     (let curVal = res_get res ''Vary''
      in if curVal = ''*'' then res
         else if newValue = ''*'' then res_set res ''Vary'' ''*''
         else (let values = map (\<lambda>item. toLowerCase (trim item)) (split CHR '','' curVal);
                   values' = (if toLowerCase newValue \<in> set values then values
                              else values @ [toLowerCase newValue])
               in res_set res ''Vary'' (join '', '' values')))"

fun itemAllowed :: "string \<Rightarrow> originItem \<Rightarrow> bool" where
  "itemAllowed requestOrigin (OriginString s) = (requestOrigin = s)"
| "itemAllowed requestOrigin (OriginRegExp re) = (re requestOrigin \<noteq> None)"

fun isOriginAllowed :: "string \<Rightarrow> originOption \<Rightarrow> bool" where
  "isOriginAllowed requestOrigin (OriginList aos) = list_ex (itemAllowed requestOrigin) aos"
| "isOriginAllowed requestOrigin (OriginItem ao) = itemAllowed requestOrigin ao"
| "isOriginAllowed requestOrigin (OriginBool b) = b"

definition joinOrString :: "stringOrList \<Rightarrow> string" where
  "joinOrString v = (case v of One t \<Rightarrow> t | Many ts \<Rightarrow> join '','' ts)"

text \<open>\<open>v?.length\<close> as a condition.\<close>

definition hasLength :: "stringOrList option \<Rightarrow> bool" where
  "hasLength v = (case v of None \<Rightarrow> False | Some (One t) \<Rightarrow> t \<noteq> [] | Some (Many ts) \<Rightarrow> ts \<noteq> [])"

text \<open>\<open>!options.origin || options.origin === "*"\<close>.\<close>

fun originIsAny :: "originOption \<Rightarrow> bool" where
  "originIsAny (OriginBool b) = (\<not> b)"
| "originIsAny (OriginItem (OriginString t)) = (t = [] \<or> t = ''*'')"
| "originIsAny (OriginItem (OriginRegExp re)) = False"
| "originIsAny (OriginList aos) = False"

definition initCors :: "CorsOptions \<Rightarrow> string \<Rightarrow> CafResponse \<Rightarrow> CafResponse" where
  "initCors opts orig res =
     (let oo = optionsOrigin opts;
          r1 = (if originIsAny oo
                then res_set res ''Access-Control-Allow-Origin'' ''*''
                else (case oo of
                        OriginItem (OriginString t) \<Rightarrow>
                          setVaryHeader (res_set res ''Access-Control-Allow-Origin'' t) ''Origin''
                      | _ \<Rightarrow>
                          setVaryHeader
                            (res_set res ''Access-Control-Allow-Origin''
                               (if isOriginAllowed orig oo then orig else ''false''))
                            ''Origin''));
          r2 = (if credentials opts = Some True
                then res_set r1 ''Access-Control-Allow-Credentials'' ''true'' else r1)
      in if hasLength (exposedHeaders opts)
         then res_set r2 ''Access-Control-Expose-Headers'' (joinOrString (the (exposedHeaders opts)))
         else r2)"

text \<open>\<open>options.maxAge.toString()\<close> when \<open>maxAge\<close> is a number or a string.\<close>

definition maxAgeString :: "jsdata option \<Rightarrow> string option" where
  "maxAgeString m =
     (case m of Some (JNum n) \<Rightarrow> Some (String (JNum n)) | Some (JStr t) \<Rightarrow> Some t | _ \<Rightarrow> None)"

definition handleOptions :: "CorsOptions \<Rightarrow> string \<Rightarrow> CafResponse \<Rightarrow> unit completion \<times> CafResponse" where
  "handleOptions opts neededHeaders res =
     (let r1 = res_set res ''Access-Control-Allow-Methods'' (joinOrString (optionsMethods opts));
          notConfigured = (allowedHeaders opts = None \<or> allowedHeaders opts = Some (One []));
          allowed = (if notConfigured then Some (One neededHeaders) else allowedHeaders opts);
          r2 = (if notConfigured then setVaryHeader r1 ''Access-Control-request-Headers'' else r1);
          r3 = (if hasLength allowed
                then res_set r2 ''Access-Control-Allow-Headers'' (joinOrString (the allowed)) else r2);
          r4 = (case maxAgeString (maxAge opts) of
                  Some t \<Rightarrow> (if t \<noteq> [] then res_set r3 ''Access-Control-Max-Age'' t else r3)
                | None \<Rightarrow> r3)
      in res_end (res_set (status r4 204) ''Content-Length'' ''0'') JUndefined)"

definition cors :: "CorsOptions option \<Rightarrow> string \<Rightarrow> Headers \<Rightarrow> CafResponse \<Rightarrow> unit completion \<times> CafResponse" where
  "cors opts method headers res =
     (let orig = headersGet headers ''origin'';
          neededHeaders = (case headersGet headers ''access-control-request-headers'' of
                             None \<Rightarrow> [] | Some v \<Rightarrow> v)
      in case (opts, orig) of
           (Some os, Some og) \<Rightarrow>
             (if og \<noteq> [] then
                (let r1 = initCors os og res
                 in if method = ''OPTIONS'' then handleOptions os neededHeaders r1 else (Normal (), r1))
              else (Normal (), res))
         | _ \<Rightarrow> (Normal (), res))"

section \<open>The request body (types.ts, body.ts)\<close>

text \<open>The first match of \<open>/charset=([^;]+)/\<close>: its captured group.\<close>

fun matchCharset :: "string \<Rightarrow> string option" where
  "matchCharset [] = None"
| "matchCharset (c # cs) =
     (if startsWith (c # cs) ''charset='' \<and> takeWhile (\<lambda>x. x \<noteq> CHR '';'') (drop 8 (c # cs)) \<noteq> []
      then Some (takeWhile (\<lambda>x. x \<noteq> CHR '';'') (drop 8 (c # cs)))
      else matchCharset cs)"

definition getDataTypeFromContentType :: "string \<Rightarrow> string option \<times> string option" where
  "getDataTypeFromContentType contentType =
     (let cs = matchCharset contentType
      in if take 16 contentType = ''application/json''
         then (Some ''json'', Some (case cs of None \<Rightarrow> ''utf-8'' | Some v \<Rightarrow> v))
         else if take 33 contentType = ''application/x-www-form-urlencoded''
         then (Some ''text'', Some (case cs of None \<Rightarrow> ''ascii'' | Some v \<Rightarrow> v))
         else if take 5 contentType = ''text/'' \<or> cs \<noteq> None
         then (Some ''text'', cs)
         else (None, None))"

text \<open>
  The \<open>Body\<close> of the platform is given by what each of its three readers settles to:
  \<open>Inl e\<close> when the reader rejects with \<open>e\<close> (malformed JSON, a decode error).
\<close>

record Body =
  readJson :: "jsval + jsdata"
  readText :: "jsval + string"
  readArrayBuffer :: "jsval + string"

record RequestBody =
  dataType :: "string option"
  charset :: "string option"
  reqBody :: "Body option"

definition newRequestBody :: "string \<Rightarrow> Body option \<Rightarrow> RequestBody" where
  "newRequestBody contentType rb =
     (let t = getDataTypeFromContentType contentType
      in \<lparr>dataType = fst t, charset = snd t, reqBody = rb\<rparr>)"





section \<open>The route table (api.ts)\<close>

text \<open>
  A handler is a function value, so the check \<open>typeof handler == 'function'\<close> of the
  source holds by its type; \<open>handler.bind(context)\<close> is the handler. The records
  \<open>routes\<close>, \<open>static\<close> and \<open>dynamic\<close> of the source are maps: their keys are
  \<open>"METHOD path"\<close> or an upper-case method (\<open>addEndpoint\<close> upper-cases it, and both
  callers of \<open>trigger\<close> in app.ts pass \<open>method.toUpperCase()\<close>), never the name of a member
  of \<open>Object.prototype\<close>.
\<close>

record 'h DynamicRoute =
  handler :: 'h
  params :: "string list"
  regexp :: RegExp

record 'h API =
  routes :: "string set"
  static :: "string \<rightharpoonup> 'h"
  dynamic :: "string \<rightharpoonup> 'h DynamicRoute list"
  fallbackRoute :: "'h option"

definition newAPI :: "'h API" where
  "newAPI = \<lparr>routes = {}, static = Map.empty, dynamic = Map.empty, fallbackRoute = None\<rparr>"

definition backslash :: char where
  "backslash = CHR 0x5C"

definition quote :: char where
  "quote = CHR 0x27"

text \<open>The pattern of a \<open>:name\<close> segment: an escaped slash and one group of the class
  of word characters, digits, \<open>-\<close>, \<open>.\<close>, \<open>_\<close> and \<open>~\<close>, one or more of them.\<close>

definition paramPattern :: string where
  "paramPattern =
     backslash # ''/(['' @ backslash # ''w'' @ backslash # ''d'' @ backslash # ''-''
       @ backslash # ''._~]+)''"

definition pathStep :: "string \<times> string list \<Rightarrow> string \<Rightarrow> string \<times> string list" where
  "pathStep acc seg =
     (case seg of
        [] \<Rightarrow> acc
      | c # cs \<Rightarrow>
          (if c = CHR '':'' then (fst acc @ paramPattern, snd acc @ [cs])
           else (fst acc @ backslash # ''/'' @ seg, snd acc)))"

text \<open>
  \<open>pathToRegexp\<close>: the constructor \<open>new RegExp(source)\<close> of the platform is a parameter;
  it yields \<open>None\<close> where the platform throws a \<open>SyntaxError\<close>.
\<close>

definition pathToRegexp :: "(string \<Rightarrow> RegExp option) \<Rightarrow> string
    \<Rightarrow> (RegExp \<times> string list) completion" where
  "pathToRegexp newRegExp path =
     (let acc = foldl pathStep ([], []) (split CHR ''/'' path)
      in case newRegExp (''^'' @ fst acc @ ''$'') of
           None \<Rightarrow> Throw (JError ''SyntaxError'' ''Invalid regular expression'')
         | Some re \<Rightarrow> Normal (re, snd acc))"

definition assertionError :: "string \<Rightarrow> jsval" where
  "assertionError m = JError ''AssertionError'' m"

definition setFallbackRoute :: "'h API \<Rightarrow> 'h \<Rightarrow> unit completion \<times> 'h API" where
  "setFallbackRoute api h =
     (if fallbackRoute api \<noteq> None
      then (Throw (assertionError (''Route for '' @ quote # ''ALL'' @ quote # '' is already defined'')), api)
      else (Normal (), api\<lparr>fallbackRoute := Some h\<rparr>))"

definition addEndpoint :: "(string \<Rightarrow> RegExp option) \<Rightarrow> 'h API \<Rightarrow> string \<Rightarrow> string \<Rightarrow> 'h
    \<Rightarrow> unit completion \<times> 'h API" where
  "addEndpoint newRegExp api method path h =
     (let m = toUpperCase method;
          route = m @ '' '' @ path
      in if route \<in> routes api
         then (Throw (assertionError
                 (''Route for '' @ quote # route @ quote # '' is already defined'')), api)
         else
           (let a1 = api\<lparr>routes := insert route (routes api)\<rparr>
            in if \<not> includesStr path ''/:'' \<and> \<not> includesStr path ''*''
               then (Normal (), a1\<lparr>static := (static a1)(route \<mapsto> h)\<rparr>)
               else
                 (let rs = (case dynamic a1 m of None \<Rightarrow> [] | Some l \<Rightarrow> l);
                      a2 = a1\<lparr>dynamic := (dynamic a1)(m \<mapsto> rs)\<rparr>
                  in case pathToRegexp newRegExp path of
                       Throw e \<Rightarrow> (Throw e, a2)
                     | Normal (re, ps) \<Rightarrow>
                         (Normal (),
                          a2\<lparr>dynamic := (dynamic a2)
                                (m \<mapsto> rs @ [\<lparr>handler = h, params = ps, regexp = re\<rparr>])\<rparr>))))"

text \<open>\<open>match[i + 1]\<close> for the groups of a match: \<open>undefined\<close> (here \<open>None\<close>) past the end.\<close>

definition group :: "string option list \<Rightarrow> nat \<Rightarrow> string option" where
  "group gs i = (if i < length gs then gs ! i else None)"

text \<open>\<open>r.params.forEach((p, i) => params[p] = match[i + 1])\<close>, from index \<open>i\<close> on.\<close>

fun bindParams :: "string list \<Rightarrow> nat \<Rightarrow> string option list \<Rightarrow> (string \<rightharpoonup> string option)
    \<Rightarrow> (string \<rightharpoonup> string option)" where
  "bindParams [] i gs ps = ps"
| "bindParams (p # rest) i gs ps = bindParams rest (Suc i) gs (ps(p \<mapsto> group gs i))"

text \<open>The loop over the dynamic routes of a method; \<open>None\<close> when it runs to its end.\<close>

fun scanDynamic :: "'h DynamicRoute list \<Rightarrow> string \<Rightarrow> (string \<rightharpoonup> string option)
    \<Rightarrow> ('h \<times> (string \<rightharpoonup> string option)) option" where
  "scanDynamic [] path ps = None"
| "scanDynamic (r # rs) path ps =
     (case regexp r path of
        Some gs \<Rightarrow> Some (handler r, bindParams (params r) 0 gs ps)
      | None \<Rightarrow> scanDynamic rs path ps)"

text \<open>\<open>matchRoute\<close>: the handler, or \<open>None\<close> for \<open>false\<close>, and the params dictionary
  it has filled.\<close>

definition matchRoute :: "'h API \<Rightarrow> string \<Rightarrow> string \<Rightarrow> (string \<rightharpoonup> string option)
    \<Rightarrow> 'h option \<times> (string \<rightharpoonup> string option)" where
  "matchRoute api method path ps =
     (let route = method @ '' '' @ path
      in case static api route of
           Some h \<Rightarrow> (Some h, ps)
         | None \<Rightarrow>
             (case (case dynamic api method of None \<Rightarrow> None | Some rs \<Rightarrow> scanDynamic rs path ps) of
                Some (h, ps') \<Rightarrow> (Some h, ps')
              | None \<Rightarrow> (fallbackRoute api, ps)))"

section \<open>Registration helpers (app.ts, router.ts)\<close>

text \<open>A \<open>Route\<close>: method, path, handler and the flag \<open>all\<close>.\<close>

datatype 'h Route = Route string string 'h bool






definition App_all :: "'h API \<Rightarrow> 'h \<Rightarrow> unit completion \<times> 'h API" where
  "App_all api h = setFallbackRoute api h"






definition Router_all :: "'h Route list \<Rightarrow> 'h \<Rightarrow> 'h Route list" where
  "Router_all rs h = rs @ [Route ''all'' ''*'' h True]"




section \<open>Dispatch (api.ts: \<open>trigger\<close>)\<close>

text \<open>
  The argument of \<open>trigger\<close> and the arguments given to a handler. Of the handler
  arguments, \<open>conf\<close>, \<open>cookies\<close>, \<open>log\<close>, \<open>call\<close> and the properties of \<open>app.global\<close>
  take no part in dispatch and are left out; \<open>res\<close> is the response the handler runs on.
\<close>

record TriggerInput =
  inMethod :: string
  inHeaders :: Headers
  inQuery :: "string \<rightharpoonup> string"
  inPath :: string
  inIp :: "string option"
  inBody :: "Body option"

record RouteHandlerArgs =
  argHeaders :: Headers
  argQuery :: "string \<rightharpoonup> string"
  argParams :: "string \<rightharpoonup> string option"
  argMethod :: string
  argPath :: string
  argIp :: string
  argBody :: RequestBody

text \<open>
  A handler runs on the response and returns, or throws (an async handler: rejects).
  \<open>trigger\<close> starts the handler and returns the response at once; the model gives the
  response as it is when the handler has settled.
\<close>

type_synonym RouteHandler = "RouteHandlerArgs \<Rightarrow> CafResponse \<Rightarrow> unit completion \<times> CafResponse"

definition headerValue :: "Headers \<Rightarrow> string \<Rightarrow> jsval" where
  "headerValue hs k = (case headersGet hs k of None \<Rightarrow> Data JNull | Some v \<Rightarrow> str v)"

definition makeReqInfo :: "TriggerInput \<Rightarrow> jsobject" where
  "makeReqInfo t =
     [(''method'', str (inMethod t)),
      (''path'', str (inPath t)),
      (''host'', headerValue (inHeaders t) ''host''),
      (''agent'', headerValue (inHeaders t) ''user-agent''),
      (''type'', str ''request''),
      (''msg'', str (''Received '' @ inMethod t @ '' request to '' @ inPath t))]"

definition clientIp :: "TriggerInput \<Rightarrow> string" where
  "clientIp t =
     (case headersGet (inHeaders t) ''x-forwarded-for'' of
        Some v \<Rightarrow> hd (split CHR '','' v)
      | None \<Rightarrow> (case inIp t of Some a \<Rightarrow> a | None \<Rightarrow> ''::1''))"

text \<open>
  The body of the async function of \<open>trigger\<close>: \<open>try { ... } catch(err) { handleError(...) }\<close>.
  Nothing awaits that function: when \<open>handleError\<close> itself throws, its promise rejects and
  the response stays as \<open>handleError\<close> left it.
\<close>

definition dispatch :: "(string \<Rightarrow> string list \<Rightarrow> string) \<Rightarrow> jsobject \<Rightarrow> RouteHandler option
    \<Rightarrow> RouteHandlerArgs \<Rightarrow> CafResponse \<Rightarrow> CafResponse" where
  "dispatch sprintf ri h input res =
     (case notFound sprintf res (h = None) None [] of
        (Throw e, r1) \<Rightarrow> snd (handleError e ri r1)
      | (Normal u, r1) \<Rightarrow>
          (case h of
             None \<Rightarrow> snd (handleError (JError ''TypeError'' ''handler is not a function'') ri r1)
           | Some f \<Rightarrow>
               (case f input r1 of
                  (Throw e, r2) \<Rightarrow> snd (handleError e ri r2)
                | (Normal u', r2) \<Rightarrow> r2)))"

definition trigger :: "(string \<Rightarrow> string list \<Rightarrow> string) \<Rightarrow> CorsOptions option \<Rightarrow> Logger
    \<Rightarrow> RouteHandler API \<Rightarrow> TriggerInput \<Rightarrow> CafResponse completion" where
  "trigger sprintf corsConf logger api t =
     (let ri = makeReqInfo t;
          res = newCafResponse ri logger
      in case cors corsConf (inMethod t) (inHeaders t) res of
           (Throw e, r1) \<Rightarrow> Throw e
         | (Normal u, r1) \<Rightarrow>
             (if finished r1 then Normal r1
              else
                (let r2 = logDebug r1 ri;
                     found = matchRoute api (inMethod t) (inPath t) Map.empty;
                     input = \<lparr>argHeaders = inHeaders t, argQuery = inQuery t, argParams = snd found,
                              argMethod = inMethod t, argPath = inPath t, argIp = clientIp t,
                              argBody = newRequestBody
                                (case headersGet (inHeaders t) ''content-type'' of
                                   None \<Rightarrow> [] | Some v \<Rightarrow> v) (inBody t)\<rparr>
                 in Normal (dispatch sprintf ri (fst found) input r2))))"

section \<open>Notions used to state the properties\<close>

text \<open>The response is not finished: \<open>end\<close> has not run on it and its stream is not closed.\<close>

definition unfinished :: "CafResponse \<Rightarrow> bool" where
  "unfinished r = (\<not> finished r \<and> \<not> closeRequested (streamCtrl r))"


text \<open>The body after one more chunk of text; the empty text is not written.\<close>

definition bodyWith :: "string option \<Rightarrow> string \<Rightarrow> string option" where
  "bodyWith b t = (if t = [] then b else Some ((case b of None \<Rightarrow> [] | Some old \<Rightarrow> old) @ t))"

text \<open>The chunks of the stream after one more chunk of text; the empty text is not
  enqueued.\<close>

definition queueWith :: "string list \<Rightarrow> string \<Rightarrow> string list" where
  "queueWith q t = (if t = [] then q else q @ [t])"

text \<open>The object \<open>{test: 'foo'}\<close>, with its serialisation \<open>{"test":"foo"}\<close>.\<close>

definition dquote :: char where
  "dquote = CHR 0x22"

definition testFoo :: jsdata where
  "testFoo =
     JObj (Serialised (''{'' @ dquote # ''test'' @ dquote # '':'' @ dquote # ''foo'' @ dquote # ''}''))
       ''[object Object]''"

text \<open>The object \<open>{n: 1n}\<close>, which holds a big integer: \<open>JSON.stringify\<close> refuses it.\<close>

definition bigIntObject :: jsdata where
  "bigIntObject = JObj (Unserialisable ''Do not know how to serialize a BigInt'') ''[object Object]''"

text \<open>A response on which \<open>end()\<close> has run.\<close>

definition endedResponse :: CafResponse where
  "endedResponse = snd (res_end (newCafResponse [] []) JUndefined)"


text \<open>The response of \<open>handleOptions\<close> with its headers set, before \<open>status(204)\<close>,
  \<open>Content-Length\<close> and \<open>end()\<close>.\<close>

definition preflightHeaders :: "CorsOptions \<Rightarrow> string \<Rightarrow> CafResponse \<Rightarrow> CafResponse" where
  "preflightHeaders opts neededHeaders res =
     (let r1 = res_set res ''Access-Control-Allow-Methods'' (joinOrString (optionsMethods opts));
          notConfigured = (allowedHeaders opts = None \<or> allowedHeaders opts = Some (One []));
          allowed = (if notConfigured then Some (One neededHeaders) else allowedHeaders opts);
          r2 = (if notConfigured then setVaryHeader r1 ''Access-Control-request-Headers'' else r1);
          r3 = (if hasLength allowed
                then res_set r2 ''Access-Control-Allow-Headers'' (joinOrString (the allowed)) else r2)
      in case maxAgeString (maxAge opts) of
           Some t \<Rightarrow> (if t \<noteq> [] then res_set r3 ''Access-Control-Max-Age'' t else r3)
         | None \<Rightarrow> r3)"

text \<open>The \<open>Access-Control-Request-Headers\<close> of the request, empty when there is none.\<close>

definition requestedHeaders :: "Headers \<Rightarrow> string" where
  "requestedHeaders hs =
     (case headersGet hs ''access-control-request-headers'' of None \<Rightarrow> [] | Some v \<Rightarrow> v)"

text \<open>The response as \<open>cors\<close> leaves it, on the new response that \<open>trigger\<close> creates.\<close>

definition corsResponse :: "CorsOptions option \<Rightarrow> Logger \<Rightarrow> TriggerInput \<Rightarrow> CafResponse" where
  "corsResponse corsConf logger t =
     snd (cors corsConf (inMethod t) (inHeaders t) (newCafResponse (makeReqInfo t) logger))"

text \<open>Examples: a CORS configuration with a max age only, a preflight request from another
  origin (the names of a \<open>Headers\<close> value are in lower case), and the same request with an
  \<open>Origin\<close> header that is empty.\<close>

definition exampleOptions :: CorsOptions where
  "exampleOptions =
     \<lparr>origin = None, methods = None, allowedHeaders = None, exposedHeaders = None,
      credentials = None, maxAge = Some (JNum (Integer 600))\<rparr>"

definition examplePreflight :: TriggerInput where
  "examplePreflight =
     \<lparr>inMethod = ''OPTIONS'',
      inHeaders = [(''origin'', ''http://outsider.com''), (''access-control-request-headers'', ''x-token'')],
      inQuery = Map.empty, inPath = ''/foobar'', inIp = None, inBody = None\<rparr>"

definition emptyOriginPreflight :: TriggerInput where
  "emptyOriginPreflight = examplePreflight\<lparr>inHeaders := [(''origin'', [])]\<rparr>"

text \<open>The response that \<open>trigger\<close> returns, when it returns one.\<close>

fun responseOf :: "CafResponse completion \<Rightarrow> CafResponse option" where
  "responseOf (Normal r) = Some r"
| "responseOf (Throw e) = None"

text \<open>The allow-list of headers is configured: it is set and not the empty string.\<close>

definition allowListConfigured :: "CorsOptions \<Rightarrow> bool" where
  "allowListConfigured opts = (allowedHeaders opts \<noteq> None \<and> allowedHeaders opts \<noteq> Some (One []))"

text \<open>The specialized assertion helpers with the status each one documents.\<close>

definition assertionHelpers :: "(((string \<Rightarrow> string list \<Rightarrow> string) \<Rightarrow> CafResponse \<Rightarrow> bool \<Rightarrow> string option
    \<Rightarrow> jsdata list \<Rightarrow> unit completion \<times> CafResponse) \<times> int) list" where
  "assertionHelpers =
     [(badRequest, 400), (unauthorized, 401), (forbidden, 403), (notFound, 404),
      (conflict, 409), (gone, 410), (badType, 415)]"

text \<open>The template a helper formats: \<open>message ?? ''\<close>.\<close>

definition template :: "string option \<Rightarrow> string" where
  "template m = (case m of None \<Rightarrow> [] | Some t \<Rightarrow> t)"

text \<open>
  Registrations made one after the other, by a caller that goes on after a throw: every
  route table is reached this way from the empty one.
\<close>

datatype 'h registration = AddEndpoint string string 'h | SetFallbackRoute 'h

fun register :: "(string \<Rightarrow> RegExp option) \<Rightarrow> 'h API \<Rightarrow> 'h registration \<Rightarrow> 'h API" where
  "register newRegExp api (AddEndpoint m p h) = snd (addEndpoint newRegExp api m p h)"
| "register newRegExp api (SetFallbackRoute h) = snd (setFallbackRoute api h)"

definition registerAll :: "(string \<Rightarrow> RegExp option) \<Rightarrow> 'h API \<Rightarrow> 'h registration list \<Rightarrow> 'h API" where
  "registerAll newRegExp api regs = foldl (register newRegExp) api regs"

text \<open>
  An example of the platform's \<open>RegExp\<close>, enough for the route \<open>/foo/:bar\<close>: every
  source compiles; the source of \<open>/foo/:bar\<close> accepts \<open>/foo/\<close> followed by one
  non-empty segment of letters and captures that segment; no other source accepts
  anything.
\<close>

definition exampleRegExp :: "string \<Rightarrow> RegExp option" where
  "exampleRegExp src =
     Some (\<lambda>s. if src = ''^'' @ backslash # ''/foo'' @ paramPattern @ ''$''
                   \<and> startsWith s ''/foo/'' \<and> drop 5 s \<noteq> []
                   \<and> list_all (\<lambda>c. c \<in> set lowerLetters) (drop 5 s)
                then Some [Some (drop 5 s)] else None)"



text \<open>The message of the duplicate-route error for a route.\<close>

definition duplicateRoute :: "string \<Rightarrow> jsval" where
  "duplicateRoute route = assertionError (''Route for '' @ quote # route @ quote # '' is already defined'')"

text \<open>The path has a dynamic segment or a wildcard, so the route is a dynamic one.\<close>

definition isDynamicPath :: "string \<Rightarrow> bool" where
  "isDynamicPath p = (includesStr p ''/:'' \<or> includesStr p ''*'')"




section \<open>Properties of the response\<close>

lemma res_end_closed:
  "closeRequested (streamCtrl r) \<Longrightarrow> fst (res_end r b) = Throw streamTypeError"
  by (simp add: res_end_def res_write_def sendHead_def enqueue_def close_def logWarn_def Let_def
      split: jsdata.splits)

lemma res_end_closed_log:
  "finished r \<Longrightarrow> closeRequested (streamCtrl r) \<Longrightarrow>
     log (snd (res_end r b)) = log r @ [(''warn'', endWarning)]"
  by (simp add: res_end_def res_write_def sendHead_def enqueue_def close_def logWarn_def Let_def
      split: jsdata.splits)

lemma res_end_closed_state:
  "finished r \<Longrightarrow> closeRequested (streamCtrl r) \<Longrightarrow> headersSent r \<Longrightarrow>
     snd (res_end r b) = r\<lparr>log := log r @ [(''warn'', endWarning)]\<rparr>"
  by (simp add: res_end_def res_write_def sendHead_def enqueue_def close_def logWarn_def Let_def
      split: jsdata.splits)


lemma res_end_text:
  assumes "unfinished r"
  shows "fst (res_end r (JStr t)) = Normal ()"
    and "finished (snd (res_end r (JStr t)))"
    and "closeRequested (streamCtrl (snd (res_end r (JStr t))))"
    and "statusCode (snd (res_end r (JStr t))) = statusCode r"
    and "headersObj (snd (res_end r (JStr t))) = headersObj r"
    and "body (snd (res_end r (JStr t))) = bodyWith (body r) t"
    and "queue (streamCtrl (snd (res_end r (JStr t)))) = queueWith (queue (streamCtrl r)) t"
  using assms
  by (simp_all add: unfinished_def res_end_def res_write_def sendHead_def enqueue_def close_def
      logDebug_def bodyWith_def queueWith_def Let_def split: option.splits)

text \<open>
  The flag \<open>finished\<close> and the state of the stream agree on a new response, and every
  call of \<open>end\<close> keeps them in agreement, whether it returns or throws.
\<close>

lemma newCafResponse_unfinished: "unfinished (newCafResponse ri lg)"
  by (simp add: unfinished_def newCafResponse_def)

lemma newCafResponse_fields:
  "statusCode (newCafResponse ri lg) = 200"
  "body (newCafResponse ri lg) = None"
  "headersObj (newCafResponse ri lg) = []"
  "finished (newCafResponse ri lg) = False"
  "log (newCafResponse ri lg) = lg"
  "queue (streamCtrl (newCafResponse ri lg)) = []"
  by (simp_all add: newCafResponse_def)

lemma res_end_agree:
  "finished r = closeRequested (streamCtrl r) \<Longrightarrow>
     finished (snd (res_end r b)) = closeRequested (streamCtrl (snd (res_end r b)))"
  by (simp add: res_end_def res_write_def sendHead_def enqueue_def close_def logWarn_def
      logDebug_def Let_def split: jsdata.splits option.splits)

text \<open>
  C4 (the code departs from the claim): on a response on which \<open>end\<close> has already run,
  so that it is finished and its stream is closed, a second call of \<open>end\<close>, with or
  without a chunk, records the warning and then throws the \<open>TypeError\<close> of the closed
  stream controller; it does not return normally.
\<close>

theorem end_twice_throws:
  "finished r \<and> closeRequested (streamCtrl r) \<Longrightarrow>
     fst (res_end r b) = Throw streamTypeError \<and>
     log (snd (res_end r b)) = log r @ [(''warn'', endWarning)]"
  by (simp add: res_end_closed res_end_closed_log)

theorem end_twice_throws_witness:
  "finished (snd (res_end (newCafResponse [] []) JUndefined)) \<and>
   closeRequested (streamCtrl (snd (res_end (newCafResponse [] []) JUndefined))) \<and>
   fst (res_end (snd (res_end (newCafResponse [] []) JUndefined)) JUndefined) = Throw streamTypeError \<and>
   log (snd (res_end (snd (res_end (newCafResponse [] []) JUndefined)) JUndefined))
     = log (snd (res_end (newCafResponse [] []) JUndefined)) @ [(''warn'', endWarning)]"
  using end_twice_throws [of "snd (res_end (newCafResponse [] []) JUndefined)" JUndefined]
  by (simp add: res_end_def newCafResponse_def sendHead_def close_def logDebug_def)

lemma unfinished_status [simp]: "unfinished (status r s) = unfinished r"
  by (simp add: unfinished_def status_def)

lemma unfinished_res_set [simp]: "unfinished (res_set r k v) = unfinished r"
  by (simp add: unfinished_def res_set_def)

lemma unfinished_res_type [simp]: "unfinished (res_type r ct) = unfinished r"
  by (simp add: res_type_def)

lemma statusCode_res_set [simp]: "statusCode (res_set r k v) = statusCode r"
  by (simp add: res_set_def)

lemma body_res_set [simp]: "body (res_set r k v) = body r"
  by (simp add: res_set_def)

lemma statusCode_res_type [simp]: "statusCode (res_type r ct) = statusCode r"
  by (simp add: res_type_def)

lemma body_res_type [simp]: "body (res_type r ct) = body r"
  by (simp add: res_type_def)

lemma streamCtrl_status [simp]: "streamCtrl (status r s) = streamCtrl r"
  by (simp add: status_def)

lemma streamCtrl_res_set [simp]: "streamCtrl (res_set r k v) = streamCtrl r"
  by (simp add: res_set_def)

lemma streamCtrl_res_type [simp]: "streamCtrl (res_type r ct) = streamCtrl r"
  by (simp add: res_type_def)

text \<open>\<open>res.error\<close> with an integer status and a template, on a response not yet finished.\<close>

lemma error_text:
  assumes "unfinished r"
  shows "fst (error sprintf r (Data (JNum (Integer s))) (JStr t) args)
           = Normal (HTTPError s (sprintf t (map String args)) ''text/plain'')"
    and "statusCode (snd (error sprintf r (Data (JNum (Integer s))) (JStr t) args)) = s"
    and "finished (snd (error sprintf r (Data (JNum (Integer s))) (JStr t) args))"
    and "body (snd (error sprintf r (Data (JNum (Integer s))) (JStr t) args))
           = bodyWith (body r) (sprintf t (map String args))"
    and "queue (streamCtrl (snd (error sprintf r (Data (JNum (Integer s))) (JStr t) args)))
           = queueWith (queue (streamCtrl r)) (sprintf t (map String args))"
proof -
  let ?fm = "sprintf t (map String args)"
  let ?r2 = "(case getContentTypeFromDataType (JStr t) of
               Some ct \<Rightarrow> res_type (status r s) ct | None \<Rightarrow> status r s)"
  have u: "unfinished ?r2" using assms by (simp split: option.splits)
  have e: "error sprintf r (Data (JNum (Integer s))) (JStr t) args
             = (Normal (HTTPError s ?fm ''text/plain''), snd (res_end ?r2 (JStr ?fm)))"
    using res_end_text(1) [OF u, of ?fm]
    by (cases "res_end ?r2 (JStr ?fm)")
       (auto simp add: error_def formatMessage_def errorMessage_def getContentTypeFromDataType_def
          Let_def split: option.splits completion.splits)
  have s2: "statusCode ?r2 = s" "body ?r2 = body r" "streamCtrl ?r2 = streamCtrl r"
    by (simp_all add: status_def split: option.splits)
  show "fst (error sprintf r (Data (JNum (Integer s))) (JStr t) args)
           = Normal (HTTPError s ?fm ''text/plain'')"
    by (simp add: e)
  show "statusCode (snd (error sprintf r (Data (JNum (Integer s))) (JStr t) args)) = s"
    by (simp only: e snd_conv res_end_text(4) [OF u] s2)
  show "finished (snd (error sprintf r (Data (JNum (Integer s))) (JStr t) args))"
    by (simp only: e snd_conv res_end_text(2) [OF u])
  show "body (snd (error sprintf r (Data (JNum (Integer s))) (JStr t) args)) = bodyWith (body r) ?fm"
    by (simp only: e snd_conv res_end_text(6) [OF u] s2)
  show "queue (streamCtrl (snd (error sprintf r (Data (JNum (Integer s))) (JStr t) args)))
          = queueWith (queue (streamCtrl r)) ?fm"
    by (simp only: e snd_conv res_end_text(7) [OF u] s2)
qed



lemma res_assert_false: "res_assert sprintf r st False m args = (Normal (), r)"
  by (simp add: res_assert_def)

lemma res_assert_true:
  assumes "unfinished r"
  shows "fst (res_assert sprintf r (Integer s) True m args)
           = Throw (JHTTPError (HTTPError s (sprintf (template m) (map String args)) ''text/plain''))"
    and "snd (res_assert sprintf r (Integer s) True m args)
           = snd (error sprintf r (Data (JNum (Integer s))) (JStr (template m)) args)"
  using error_text(1) [OF assms, of sprintf s "template m" args]
  by (cases "error sprintf r (Data (JNum (Integer s))) (JStr (template m)) args";
      simp add: res_assert_def template_def split: completion.splits)+

lemma helper_is_assert:
  "(f, s) \<in> set assertionHelpers \<Longrightarrow> f sprintf r c m args = res_assert sprintf r (Integer s) c m args"
  by (auto simp add: assertionHelpers_def badRequest_def unauthorized_def forbidden_def notFound_def
      conflict_def gone_def badType_def)

lemmas evalString =
  toUpperCase_def toUpperCaseChar_def toLowerCase_def toLowerCaseChar_def lowerLetters_def
  upperLetters_def

lemmas evalResponse =
  error_def res_assert_def handleError_def res_end_def res_write_def sendHead_def enqueue_def
  close_def logWarn_def logDebug_def logError_def status_def res_set_def res_type_def
  formatMessage_def errorMessage_def getContentTypeFromDataType_def newCafResponse_def
  headersSet_def headersGet_def normalizeValue_def isHttpWhiteSpace_def
  SHORT_CONTENT_TYPES_def bodyWith_def template_def unfinished_def Let_def

text \<open>
  C1 (as amended): a helper whose condition is false returns normally and leaves the
  response as it was, its status too, which is 200 on a new response. A helper whose
  condition is true, called with an integer status (the specialized helpers have 400, 401,
  403, 404, 409, 410 and 415) on a response that is not yet finished, sets that status,
  finishes the response with the formatted message, which is the chunk added to its
  stream when it is not empty, and throws the \<open>HTTPError\<close> of that status, so that the
  handler goes no further.
\<close>

theorem assertion_helpers:
  "statusCode (newCafResponse ri lg) = 200 \<and>
   res_assert sprintf r st False m args = (Normal (), r) \<and>
   (\<forall>(f, c) \<in> set assertionHelpers. f sprintf r False m args = (Normal (), r)) \<and>
   (unfinished r \<longrightarrow>
      fst (res_assert sprintf r (Integer s) True m args)
        = Throw (JHTTPError (HTTPError s (sprintf (template m) (map String args)) ''text/plain'')) \<and>
      statusCode (snd (res_assert sprintf r (Integer s) True m args)) = s \<and>
      finished (snd (res_assert sprintf r (Integer s) True m args)) \<and>
      queue (streamCtrl (snd (res_assert sprintf r (Integer s) True m args)))
        = queueWith (queue (streamCtrl r)) (sprintf (template m) (map String args))) \<and>
   (unfinished r \<longrightarrow>
      (\<forall>(f, c) \<in> set assertionHelpers.
         fst (f sprintf r True m args)
           = Throw (JHTTPError (HTTPError c (sprintf (template m) (map String args)) ''text/plain'')) \<and>
         statusCode (snd (f sprintf r True m args)) = c \<and>
         finished (snd (f sprintf r True m args)) \<and>
         queue (streamCtrl (snd (f sprintf r True m args)))
           = queueWith (queue (streamCtrl r)) (sprintf (template m) (map String args))))"
proof -
  have a: "statusCode (newCafResponse ri lg) = 200"
    by (simp add: newCafResponse_def)
  have b: "\<forall>(f, c) \<in> set assertionHelpers. f sprintf r False m args = (Normal (), r)"
    by (auto simp add: helper_is_assert res_assert_false)
  have c: "fst (res_assert sprintf r (Integer k) True m args)
             = Throw (JHTTPError (HTTPError k (sprintf (template m) (map String args)) ''text/plain'')) \<and>
           statusCode (snd (res_assert sprintf r (Integer k) True m args)) = k \<and>
           finished (snd (res_assert sprintf r (Integer k) True m args)) \<and>
           queue (streamCtrl (snd (res_assert sprintf r (Integer k) True m args)))
             = queueWith (queue (streamCtrl r)) (sprintf (template m) (map String args))"
    if "unfinished r" for k
    using that by (simp add: res_assert_true error_text)
  have d: "\<forall>(f, c) \<in> set assertionHelpers.
         fst (f sprintf r True m args)
           = Throw (JHTTPError (HTTPError c (sprintf (template m) (map String args)) ''text/plain'')) \<and>
         statusCode (snd (f sprintf r True m args)) = c \<and>
         finished (snd (f sprintf r True m args)) \<and>
         queue (streamCtrl (snd (f sprintf r True m args)))
           = queueWith (queue (streamCtrl r)) (sprintf (template m) (map String args))"
    if "unfinished r"
    using c [OF that] by (auto simp add: helper_is_assert)
  show ?thesis
    using a b c d by (simp add: res_assert_false)
qed

theorem assertion_helpers_witness:
  "unfinished (newCafResponse [] []) \<and>
   gone (\<lambda>fmt as. fmt) (newCafResponse [] []) False (Some ''no'') [] = (Normal (), newCafResponse [] []) \<and>
   fst (notFound (\<lambda>fmt as. fmt) (newCafResponse [] []) True (Some ''no'') [])
     = Throw (JHTTPError (HTTPError 404 ''no'' ''text/plain'')) \<and>
   statusCode (snd (notFound (\<lambda>fmt as. fmt) (newCafResponse [] []) True (Some ''no'') [])) = 404 \<and>
   finished (snd (notFound (\<lambda>fmt as. fmt) (newCafResponse [] []) True (Some ''no'') [])) \<and>
   queue (streamCtrl (snd (notFound (\<lambda>fmt as. fmt) (newCafResponse [] []) True (Some ''no'') [])))
     = [''no'']"
  using assertion_helpers [of "[]" "[]" "\<lambda>fmt as. fmt" "newCafResponse [] []" "Integer 410"
      "Some ''no''" "[]" 404]
  by (simp add: assertionHelpers_def newCafResponse_unfinished template_def queueWith_def
      newCafResponse_fields)

text \<open>
  C1 as stated fails: \<open>assert\<close> with the non-integer status 400.5 and a true condition
  does not use 400.5 as a status; the value is handled as an error, the response is
  finished with status 500 and the \<open>HTTPError\<close> thrown has status 500.
\<close>

theorem assertion_helpers_counterexample:
  "fst (res_assert (\<lambda>fmt as. fmt) (newCafResponse [] []) (NonInteger ''400.5'') True (Some ''no'') [])
     = Throw (JHTTPError (HTTPError 500 ''400.5'' ''text'')) \<and>
   statusCode (snd (res_assert (\<lambda>fmt as. fmt) (newCafResponse [] []) (NonInteger ''400.5'') True
     (Some ''no'') [])) = 500"
  by (simp add: evalResponse evalString spread_def)

text \<open>
  C5 (as amended): when \<open>res.error\<close> with an integer status, or an assertion helper,
  finishes a response that was not yet finished, what is sent is what was written before
  followed by the message template formatted with the arguments, for every status, those of
  500 and above too: the formatted message is the one chunk added to the stream of the
  response (and to the buffer \<open>body\<close> that mirrors it); nothing is added only when the
  formatted message is empty.
\<close>

theorem error_body:
  "unfinished r \<Longrightarrow>
     statusCode (snd (error sprintf r (Data (JNum (Integer s))) (JStr t) args)) = s \<and>
     queue (streamCtrl (snd (error sprintf r (Data (JNum (Integer s))) (JStr t) args)))
       = queueWith (queue (streamCtrl r)) (sprintf t (map String args)) \<and>
     body (snd (error sprintf r (Data (JNum (Integer s))) (JStr t) args))
       = bodyWith (body r) (sprintf t (map String args)) \<and>
     queue (streamCtrl (snd (res_assert sprintf r (Integer s) True m args)))
       = queueWith (queue (streamCtrl r)) (sprintf (template m) (map String args)) \<and>
     body (snd (res_assert sprintf r (Integer s) True m args))
       = bodyWith (body r) (sprintf (template m) (map String args)) \<and>
     (\<forall>(f, c) \<in> set assertionHelpers.
        queue (streamCtrl (snd (f sprintf r True m args)))
          = queueWith (queue (streamCtrl r)) (sprintf (template m) (map String args)) \<and>
        body (snd (f sprintf r True m args)) = bodyWith (body r) (sprintf (template m) (map String args)))"
  by (auto simp add: helper_is_assert res_assert_true error_text)

theorem error_body_witness:
  "unfinished (newCafResponse [] []) \<and>
   statusCode (snd (error (\<lambda>fmt as. fmt) (newCafResponse [] []) (Data (JNum (Integer 503)))
     (JStr ''down'') [])) = 503 \<and>
   queue (streamCtrl (snd (error (\<lambda>fmt as. fmt) (newCafResponse [] []) (Data (JNum (Integer 503)))
     (JStr ''down'') []))) = [''down''] \<and>
   body (snd (error (\<lambda>fmt as. fmt) (newCafResponse [] []) (Data (JNum (Integer 503)))
     (JStr ''down'') [])) = Some ''down'' \<and>
   queue (streamCtrl (snd (badRequest (\<lambda>fmt as. fmt) (newCafResponse [] []) True (Some ''bad'') [])))
     = [''bad''] \<and>
   body (snd (badRequest (\<lambda>fmt as. fmt) (newCafResponse [] []) True (Some ''bad'') [])) = Some ''bad''"
  using error_body [of "newCafResponse [] []" "\<lambda>fmt as. fmt" 503 "''down''" "[]" "Some ''bad''"]
  by (simp add: assertionHelpers_def newCafResponse_unfinished template_def bodyWith_def
      queueWith_def newCafResponse_fields)

text \<open>
  C5 as stated fails: \<open>res.error(501, {test: 'foo'})\<close> on a new response finishes it with
  status 501 and sends the serialised object \<open>{"test":"foo"}\<close>, not an empty body.
\<close>

theorem error_body_counterexample:
  "statusCode (snd (error (\<lambda>fmt as. fmt) (newCafResponse [] []) (Data (JNum (Integer 501))) testFoo []))
     = 501 \<and>
   finished (snd (error (\<lambda>fmt as. fmt) (newCafResponse [] []) (Data (JNum (Integer 501))) testFoo [])) \<and>
   queue (streamCtrl
     (snd (error (\<lambda>fmt as. fmt) (newCafResponse [] []) (Data (JNum (Integer 501))) testFoo [])))
     = [''{'' @ dquote # ''test'' @ dquote # '':'' @ dquote # ''foo'' @ dquote # ''}''] \<and>
   queue (streamCtrl
     (snd (error (\<lambda>fmt as. fmt) (newCafResponse [] []) (Data (JNum (Integer 501))) testFoo [])))
     \<noteq> []"
  by (simp add: error_def formatMessage_def errorMessage_def getContentTypeFromDataType_def
      res_end_def res_write_def sendHead_def enqueue_def close_def logDebug_def status_def
      res_set_def res_type_def newCafResponse_def testFoo_def Let_def)

section \<open>Properties of the error interceptor and of the body accessor\<close>

lemma filter_name_same [simp]:
  "filter (\<lambda>(n, _). n = k) (filter (\<lambda>(n, _). n \<noteq> k) hs) = []"
  by (induction hs) auto

lemma filter_name_other [simp]:
  "k' \<noteq> k \<Longrightarrow>
     filter (\<lambda>(n, _). n = k') (filter (\<lambda>(n, _). n \<noteq> k) hs) = filter (\<lambda>(n, _). n = k') hs"
  by (induction hs) auto

lemma headersGet_headersSet:
  "headersGet (headersSet hs k v) k'
     = (if toLowerCase k' = toLowerCase k then Some (normalizeValue v) else headersGet hs k')"
  by (simp add: headersGet_def headersSet_def del: filter_filter)

lemma res_get_res_set:
  "res_get (res_set r k v) k'
     = (if toLowerCase k' = toLowerCase k then normalizeValue v else res_get r k')"
  by (simp add: res_get_def res_set_def headersGet_headersSet)

lemma handleError_low:
  "anythingToError v = Normal (HTTPError hs hm ht) \<Longrightarrow> \<not> hs > 499 \<Longrightarrow>
     handleError v ri r = (Normal (HTTPError hs hm ht), r)"
  by (simp add: handleError_def)

lemma handleError_finished:
  "anythingToError v = Normal (HTTPError hs hm ht) \<Longrightarrow> hs > 499 \<Longrightarrow> finished r \<Longrightarrow>
     handleError v ri r
       = (Normal (HTTPError hs hm ht),
          r\<lparr>log := log r @ [(''error'', spread ri [(''type'', str ''route''), (''err'', v)])]\<rparr>)"
  by (simp add: handleError_def logError_def)

lemma handleError_unfinished:
  assumes "anythingToError v = Normal (HTTPError hs hm ht)" "hs > 499" "unfinished r"
  shows "fst (handleError v ri r) = Normal (HTTPError hs hm ht)"
    and "statusCode (snd (handleError v ri r)) = hs"
    and "finished (snd (handleError v ri r))"
    and "body (snd (handleError v ri r)) = body r"
    and "queue (streamCtrl (snd (handleError v ri r))) = queue (streamCtrl r)"
    and "(''error'', spread ri [(''type'', str ''route''), (''err'', v)])
           \<in> set (log (snd (handleError v ri r)))"
    and "headersGet (headersObj (snd (handleError v ri r))) ''Content-Type''
           = Some (normalizeValue (case SHORT_CONTENT_TYPES ht of Some t \<Rightarrow> t | None \<Rightarrow> ht))"
  using assms
  by (simp_all add: handleError_def logError_def unfinished_def res_end_def sendHead_def close_def
      logDebug_def status_def res_type_def res_set_def headersGet_headersSet Let_def)

text \<open>
  What \<open>JSON.stringify\<close> throws leaves \<open>handleError\<close>: nothing is logged and the response
  is as it was, so one that was not finished is not finished.
\<close>

lemma handleError_unserialisable:
  "handleError (Data (JObj (Unserialisable em) s)) ri r = (Throw (JError ''TypeError'' em), r)"
  by (simp add: handleError_def)

lemma dispatch_unserialisable:
  "h input r = (Throw (Data (JObj (Unserialisable em) s)), r') \<Longrightarrow>
     dispatch sprintf ri (Some h) input r = r'"
  by (simp add: dispatch_def notFound_def res_assert_false handleError_unserialisable)

text \<open>
  C6 (as amended): an \<open>HTTPError\<close> is passed through unchanged; an \<open>Error\<close> becomes
  status 500 with its message as text; a value of type object, which for \<open>typeof\<close> is a
  plain object or an array and also \<open>null\<close> (and an \<open>ArrayBuffer\<close>), becomes status 500
  with its JSON serialisation, when \<open>JSON.stringify\<close> gives one; any other value becomes
  status 500 with its string rendering as text. When the interceptor has such a result and
  its status is 500 or more, the original value is logged at error level and a response
  that is not yet finished is finished with that status and nothing sent: no chunk is added
  to its stream. A response that is already finished is left as it is, the log entry
  apart. Below 500 the response is not touched.
\<close>

theorem error_interceptor:
  "anythingToError (JHTTPError h) = Normal h \<and>
   anythingToError (JError n em) = Normal (HTTPError 500 em ''text'') \<and>
   anythingToError (Data (JObj (Serialised j) s)) = Normal (HTTPError 500 j ''json'') \<and>
   anythingToError (Data (JArrayBuffer bs)) = Normal (HTTPError 500 ''{}'' ''json'') \<and>
   anythingToError (Data JNull) = Normal (HTTPError 500 ''null'' ''json'') \<and>
   anythingToError (Data JUndefined) = Normal (HTTPError 500 (String JUndefined) ''text'') \<and>
   anythingToError (Data (JBool b)) = Normal (HTTPError 500 (String (JBool b)) ''text'') \<and>
   anythingToError (Data (JNum x)) = Normal (HTTPError 500 (String (JNum x)) ''text'') \<and>
   anythingToError (Data (JStr t)) = Normal (HTTPError 500 t ''text'') \<and>
   (anythingToError v = Normal (HTTPError hs hm ht) \<and> hs \<ge> 500 \<and> unfinished r \<longrightarrow>
      fst (handleError v ri r) = Normal (HTTPError hs hm ht) \<and>
      (''error'', spread ri [(''type'', str ''route''), (''err'', v)])
        \<in> set (log (snd (handleError v ri r))) \<and>
      finished (snd (handleError v ri r)) \<and>
      statusCode (snd (handleError v ri r)) = hs \<and>
      body (snd (handleError v ri r)) = body r \<and>
      queue (streamCtrl (snd (handleError v ri r))) = queue (streamCtrl r)) \<and>
   (anythingToError v = Normal (HTTPError hs hm ht) \<and> hs \<ge> 500 \<and> finished r \<longrightarrow>
      handleError v ri r
        = (Normal (HTTPError hs hm ht),
           r\<lparr>log := log r @ [(''error'', spread ri [(''type'', str ''route''), (''err'', v)])]\<rparr>)) \<and>
   (anythingToError v = Normal (HTTPError hs hm ht) \<and> hs < 500 \<longrightarrow>
      handleError v ri r = (Normal (HTTPError hs hm ht), r))"
proof -
  have wrap:
    "anythingToError (JHTTPError h) = Normal h"
    "anythingToError (JError n em) = Normal (HTTPError 500 em ''text'')"
    "anythingToError (Data (JObj (Serialised j) s)) = Normal (HTTPError 500 j ''json'')"
    "anythingToError (Data (JArrayBuffer bs)) = Normal (HTTPError 500 ''{}'' ''json'')"
    "anythingToError (Data JNull) = Normal (HTTPError 500 ''null'' ''json'')"
    "anythingToError (Data JUndefined) = Normal (HTTPError 500 (String JUndefined) ''text'')"
    "anythingToError (Data (JBool b)) = Normal (HTTPError 500 (String (JBool b)) ''text'')"
    "anythingToError (Data (JNum x)) = Normal (HTTPError 500 (String (JNum x)) ''text'')"
    "anythingToError (Data (JStr t)) = Normal (HTTPError 500 t ''text'')"
    by simp_all
  have live: "fst (handleError v ri r) = Normal (HTTPError hs hm ht) \<and>
      (''error'', spread ri [(''type'', str ''route''), (''err'', v)])
        \<in> set (log (snd (handleError v ri r))) \<and>
      finished (snd (handleError v ri r)) \<and>
      statusCode (snd (handleError v ri r)) = hs \<and>
      body (snd (handleError v ri r)) = body r \<and>
      queue (streamCtrl (snd (handleError v ri r))) = queue (streamCtrl r)"
    if "anythingToError v = Normal (HTTPError hs hm ht)" "hs \<ge> 500" "unfinished r"
  proof -
    from that(2) have "hs > 499" by arith
    with that(1,3) show ?thesis
      by (simp add: handleError_unfinished)
  qed
  have over: "handleError v ri r
        = (Normal (HTTPError hs hm ht),
           r\<lparr>log := log r @ [(''error'', spread ri [(''type'', str ''route''), (''err'', v)])]\<rparr>)"
    if "anythingToError v = Normal (HTTPError hs hm ht)" "hs \<ge> 500" "finished r"
  proof -
    from that(2) have "hs > 499" by arith
    with that(1,3) show ?thesis
      by (simp add: handleError_finished)
  qed
  have low: "handleError v ri r = (Normal (HTTPError hs hm ht), r)"
    if "anythingToError v = Normal (HTTPError hs hm ht)" "hs < 500"
  proof -
    from that(2) have "\<not> hs > 499" by arith
    with that(1) show ?thesis
      by (simp add: handleError_low)
  qed
  from wrap live over low show ?thesis
    by blast
qed

theorem error_interceptor_witness:
  "unfinished (newCafResponse [] []) \<and>
   anythingToError (JError ''Error'' ''othererr'') = Normal (HTTPError 500 ''othererr'' ''text'') \<and>
   fst (handleError (JError ''Error'' ''othererr'') [] (newCafResponse [] []))
     = Normal (HTTPError 500 ''othererr'' ''text'') \<and>
   finished (snd (handleError (JError ''Error'' ''othererr'') [] (newCafResponse [] []))) \<and>
   statusCode (snd (handleError (JError ''Error'' ''othererr'') [] (newCafResponse [] []))) = 500 \<and>
   body (snd (handleError (JError ''Error'' ''othererr'') [] (newCafResponse [] []))) = None \<and>
   queue (streamCtrl (snd (handleError (JError ''Error'' ''othererr'') [] (newCafResponse [] [])))) = [] \<and>
   finished endedResponse \<and>
   handleError (JError ''Error'' ''othererr'') [] endedResponse
     = (Normal (HTTPError 500 ''othererr'' ''text''),
        endedResponse
          \<lparr>log := log endedResponse
             @ [(''error'', spread [] [(''type'', str ''route''), (''err'', JError ''Error'' ''othererr'')])]\<rparr>) \<and>
   handleError (JHTTPError (HTTPError 404 [] ''text/plain'')) [] (newCafResponse [] [])
     = (Normal (HTTPError 404 [] ''text/plain''), newCafResponse [] [])"
proof -
  have f: "finished endedResponse"
    by (simp add: endedResponse_def res_end_def newCafResponse_def sendHead_def close_def logDebug_def)
  show ?thesis
    using error_interceptor [of "HTTPError 500 ''othererr'' ''text''" "''Error''" "''othererr''"
        "[]" "[]" "[]" True "Integer 0" "[]" "JError ''Error'' ''othererr''" 500 "''othererr''"
        "''text''" "newCafResponse [] []" "[]"]
      error_interceptor [of "HTTPError 500 ''othererr'' ''text''" "''Error''" "''othererr''"
        "[]" "[]" "[]" True "Integer 0" "[]" "JError ''Error'' ''othererr''" 500 "''othererr''"
        "''text''" endedResponse "[]"]
      error_interceptor [of "HTTPError 500 ''othererr'' ''text''" "''Error''" "''othererr''"
        "[]" "[]" "[]" True "Integer 0" "[]" "JHTTPError (HTTPError 404 [] ''text/plain'')" 404 "[]"
        "''text/plain''" "newCafResponse [] []" "[]"]
      f
    by (simp add: newCafResponse_unfinished newCafResponse_fields)
qed

text \<open>
  C6 as stated fails: \<open>null\<close> is no \<open>HTTPError\<close>, no \<open>Error\<close> and no plain object,
  yet it is not wrapped as text: for \<open>typeof\<close> it is an object, and the result carries the
  tag \<open>json\<close>.
\<close>

theorem error_interceptor_counterexample:
  "anythingToError (Data JNull) = Normal (HTTPError 500 ''null'' ''json'') \<and>
   anythingToError (Data JNull) \<noteq> Normal (HTTPError 500 (String JNull) ''text'')"
  by simp

text \<open>
  An object that \<open>JSON.stringify\<close> refuses is outside the amended claim: the interceptor
  throws what \<open>JSON.stringify\<close> throws, logs nothing and leaves a new response unfinished.
\<close>

lemma handleError_bigIntObject:
  "handleError (Data bigIntObject) [] (newCafResponse [] [])
     = (Throw (JError ''TypeError'' ''Do not know how to serialize a BigInt''), newCafResponse [] []) \<and>
   \<not> finished (snd (handleError (Data bigIntObject) [] (newCafResponse [] [])))"
  by (simp add: bigIntObject_def handleError_unserialisable newCafResponse_fields)








section \<open>Properties of CORS\<close>

lemma lower_names:
  "toLowerCase ''Vary'' = ''vary''"
  "toLowerCase ''Origin'' = ''origin''"
  "toLowerCase ''origin'' = ''origin''"
  "toLowerCase ''Content-Length'' = ''content-length''"
  "toLowerCase ''Access-Control-Allow-Origin'' = ''access-control-allow-origin''"
  "toLowerCase ''Access-Control-Allow-Credentials'' = ''access-control-allow-credentials''"
  "toLowerCase ''Access-Control-Expose-Headers'' = ''access-control-expose-headers''"
  "toLowerCase ''Access-Control-Allow-Methods'' = ''access-control-allow-methods''"
  "toLowerCase ''Access-Control-Allow-Headers'' = ''access-control-allow-headers''"
  "toLowerCase ''Access-Control-Max-Age'' = ''access-control-max-age''"
  "toLowerCase ''Access-Control-request-Headers'' = ''access-control-request-headers''"
  "toLowerCase ''access-control-request-headers'' = ''access-control-request-headers''"
  by (simp_all add: evalString)

lemma normalize_values:
  "normalizeValue '', origin'' = '', origin''"
  "normalizeValue '', access-control-request-headers'' = '', access-control-request-headers''"
  "normalizeValue '', origin, access-control-request-headers''
     = '', origin, access-control-request-headers''"
  "normalizeValue ''*'' = ''*''"
  "normalizeValue ''0'' = ''0''"
  "normalizeValue ''true'' = ''true''"
  "normalizeValue ''GET,HEAD,PUT,PATCH,POST,DELETE'' = ''GET,HEAD,PUT,PATCH,POST,DELETE''"
  by (simp_all add: normalizeValue_def isHttpWhiteSpace_def)

lemma empty_item: "toLowerCase [] = []" "trim [] = []"
  by (simp_all add: toLowerCase_def trim_def)

lemma vary_values:
  "map (\<lambda>item. toLowerCase (trim item)) (split CHR '','' []) = [[]]"
  "map (\<lambda>item. toLowerCase (trim item)) (split CHR '','' '', origin'') = [[], ''origin'']"
  by (simp_all add: trim_def isWhiteSpace_def evalString)

lemma setVaryHeader_get:
  "res_get (setVaryHeader r nv) ''Vary''
     = (if res_get r ''Vary'' = ''*'' then ''*''
        else if nv = ''*'' then ''*''
        else normalizeValue (join '', ''
          (let values = map (\<lambda>item. toLowerCase (trim item)) (split CHR '','' (res_get r ''Vary''))
           in if toLowerCase nv \<in> set values then values else values @ [toLowerCase nv])))"
  by (simp add: setVaryHeader_def res_get_res_set Let_def normalize_values)

lemma setVaryHeader_star:
  "res_get r ''Vary'' = ''*'' \<Longrightarrow> setVaryHeader r nv = r"
  "res_get r ''Vary'' \<noteq> ''*'' \<Longrightarrow> res_get (setVaryHeader r ''*'') ''Vary'' = ''*''"
  by (simp_all add: setVaryHeader_def Let_def res_get_res_set normalize_values)

text \<open>
  C9 (the code departs from the claim): on a response with no \<open>Vary\<close> header, appending
  the field name \<open>Origin\<close> sets the header to a comma, a space and \<open>origin\<close>: read
  back as the code reads it (split at commas, each piece trimmed), the list is an empty
  entry followed by \<open>origin\<close>, not the field name alone. The absent header is taken as the
  empty string, and splitting the empty string gives one empty piece.
\<close>

theorem vary_first:
  "headersGet (headersObj r) ''Vary'' = None \<Longrightarrow>
     res_get (setVaryHeader r ''Origin'') ''Vary'' = '', origin'' \<and>
     map (\<lambda>item. toLowerCase (trim item)) (split CHR '','' (res_get (setVaryHeader r ''Origin'') ''Vary''))
       = [[], ''origin'']"
proof -
  assume "headersGet (headersObj r) ''Vary'' = None"
  then have c: "res_get r ''Vary'' = []"
    by (simp add: res_get_def)
  have g: "res_get (setVaryHeader r ''Origin'') ''Vary'' = '', origin''"
    by (simp add: setVaryHeader_get c empty_item lower_names normalize_values)
  show ?thesis
    by (simp only: g vary_values)
qed

theorem vary_first_witness:
  "headersGet (headersObj (newCafResponse [] [])) ''Vary'' = None \<and>
   res_get (setVaryHeader (newCafResponse [] []) ''Origin'') ''Vary'' = '', origin'' \<and>
   map (\<lambda>item. toLowerCase (trim item))
       (split CHR '','' (res_get (setVaryHeader (newCafResponse [] []) ''Origin'') ''Vary''))
     = [[], ''origin'']"
proof -
  have h: "headersGet (headersObj (newCafResponse [] [])) ''Vary'' = None"
    by (simp add: newCafResponse_fields headersGet_def)
  from vary_first [OF h] h show ?thesis
    by blast
qed

lemma res_end_unfinished:
  assumes "unfinished r"
  shows "fst (res_end r b) = Normal ()"
    and "finished (snd (res_end r b))"
    and "statusCode (snd (res_end r b)) = statusCode r"
    and "headersObj (snd (res_end r b)) = headersObj r"
    and "\<not> truthy b \<Longrightarrow> body (snd (res_end r b)) = body r"
    and "\<not> truthy b \<Longrightarrow> queue (streamCtrl (snd (res_end r b))) = queue (streamCtrl r)"
  using assms
  by (simp_all add: unfinished_def res_end_def res_write_def sendHead_def enqueue_def close_def
      logDebug_def Let_def split: option.splits)

lemma setVaryHeader_frame [simp]:
  "unfinished (setVaryHeader r nv) = unfinished r"
  "statusCode (setVaryHeader r nv) = statusCode r"
  "body (setVaryHeader r nv) = body r"
  "streamCtrl (setVaryHeader r nv) = streamCtrl r"
  by (simp_all add: setVaryHeader_def Let_def)

lemma headersObj_status [simp]: "headersObj (status r s) = headersObj r"
  by (simp add: status_def)

lemma headersGet_res_set:
  "headersGet (headersObj (res_set r k v)) k'
     = (if toLowerCase k' = toLowerCase k then Some (normalizeValue v) else headersGet (headersObj r) k')"
  by (simp add: res_set_def headersGet_headersSet)

lemma setVaryHeader_other:
  "toLowerCase k \<noteq> ''vary'' \<Longrightarrow>
     headersGet (headersObj (setVaryHeader r nv)) k = headersGet (headersObj r) k"
  by (simp add: setVaryHeader_def Let_def headersGet_res_set lower_names)

lemma initCors_unfinished [simp]: "unfinished (initCors opts og r) = unfinished r"
  by (simp add: initCors_def Let_def split: originOption.splits originItem.splits)

lemma res_get_status [simp]: "res_get (status r s) k = res_get r k"
  by (simp add: res_get_def)

lemma initCors_vary:
  "res_get r ''Vary'' = [] \<Longrightarrow>
     res_get (initCors opts og r) ''Vary''
       = (if originIsAny (optionsOrigin opts) then [] else '', origin'')"
  by (simp add: initCors_def Let_def res_get_res_set setVaryHeader_get lower_names empty_item
      normalize_values split: originOption.splits originItem.splits)

lemma handleOptions_preflightHeaders:
  "handleOptions opts needed r
     = res_end (res_set (status (preflightHeaders opts needed r) 204) ''Content-Length'' ''0'') JUndefined"
  by (simp add: handleOptions_def preflightHeaders_def Let_def)

lemma preflightHeaders_frame:
  "unfinished (preflightHeaders opts needed r) = unfinished r"
  "body (preflightHeaders opts needed r) = body r"
  "streamCtrl (preflightHeaders opts needed r) = streamCtrl r"
  by (simp_all add: preflightHeaders_def Let_def split: option.splits)

lemma handleOptions_end:
  assumes "unfinished r"
  shows "fst (handleOptions opts needed r) = Normal ()"
    and "finished (snd (handleOptions opts needed r))"
    and "statusCode (snd (handleOptions opts needed r)) = 204"
    and "body (snd (handleOptions opts needed r)) = body r"
    and "headersObj (snd (handleOptions opts needed r))
           = headersObj (res_set (preflightHeaders opts needed r) ''Content-Length'' ''0'')"
    and "queue (streamCtrl (snd (handleOptions opts needed r))) = queue (streamCtrl r)"
proof -
  let ?x = "res_set (status (preflightHeaders opts needed r) 204) ''Content-Length'' ''0''"
  have u: "unfinished ?x"
    using assms by (simp add: preflightHeaders_frame)
  show "fst (handleOptions opts needed r) = Normal ()"
    by (simp only: handleOptions_preflightHeaders res_end_unfinished(1) [OF u])
  show "finished (snd (handleOptions opts needed r))"
    by (simp only: handleOptions_preflightHeaders res_end_unfinished(2) [OF u])
  show "statusCode (snd (handleOptions opts needed r)) = 204"
    by (simp only: handleOptions_preflightHeaders res_end_unfinished(3) [OF u])
       (simp add: status_def)
  show "body (snd (handleOptions opts needed r)) = body r"
    by (simp only: handleOptions_preflightHeaders res_end_unfinished(5) [OF u] truthy.simps
          not_False_eq_True)
       (simp add: status_def preflightHeaders_frame)
  show "queue (streamCtrl (snd (handleOptions opts needed r))) = queue (streamCtrl r)"
    by (simp only: handleOptions_preflightHeaders res_end_unfinished(6) [OF u] truthy.simps
          not_False_eq_True)
       (simp add: preflightHeaders_frame)
  show "headersObj (snd (handleOptions opts needed r))
           = headersObj (res_set (preflightHeaders opts needed r) ''Content-Length'' ''0'')"
    by (simp only: handleOptions_preflightHeaders res_end_unfinished(4) [OF u])
       (simp add: res_set_def status_def)
qed

lemma preflight_methods:
  "headersGet (headersObj (preflightHeaders opts needed r)) ''Access-Control-Allow-Methods''
     = Some (normalizeValue (joinOrString (optionsMethods opts)))"
  by (simp add: preflightHeaders_def Let_def headersGet_res_set setVaryHeader_other lower_names
      split: option.splits)

lemma preflight_allowed_configured:
  assumes "allowListConfigured opts" "hasLength (allowedHeaders opts)"
  shows "headersGet (headersObj (preflightHeaders opts needed r)) ''Access-Control-Allow-Headers''
       = Some (normalizeValue (joinOrString (the (allowedHeaders opts))))"
proof -
  from assms(1) obtain v where v: "allowedHeaders opts = Some v" "v \<noteq> One []"
    by (auto simp add: allowListConfigured_def)
  show ?thesis
    using assms(2)
    by (cases "maxAgeString (maxAge opts)")
       (simp_all add: preflightHeaders_def v Let_def headersGet_res_set lower_names)
qed

lemma preflight_allowed_echo:
  "\<not> allowListConfigured opts \<Longrightarrow> needed \<noteq> [] \<Longrightarrow>
     headersGet (headersObj (preflightHeaders opts needed r)) ''Access-Control-Allow-Headers''
       = Some (normalizeValue needed)"
  by (cases "maxAgeString (maxAge opts)")
     (auto simp add: preflightHeaders_def allowListConfigured_def Let_def headersGet_res_set
        lower_names hasLength_def joinOrString_def)

lemma preflight_vary:
  "\<not> allowListConfigured opts \<Longrightarrow>
     headersGet (headersObj (preflightHeaders opts needed r)) ''Vary''
       = headersGet (headersObj (setVaryHeader
           (res_set r ''Access-Control-Allow-Methods'' (joinOrString (optionsMethods opts)))
           ''Access-Control-request-Headers'')) ''Vary''"
  by (cases "maxAgeString (maxAge opts)")
     (auto simp add: preflightHeaders_def allowListConfigured_def Let_def headersGet_res_set
        lower_names hasLength_def)

lemma preflight_maxAge:
  "maxAge opts = Some (JNum n) \<Longrightarrow> String (JNum n) \<noteq> [] \<Longrightarrow>
     headersGet (headersObj (preflightHeaders opts needed r)) ''Access-Control-Max-Age''
       = Some (normalizeValue (String (JNum n)))"
  by (simp add: preflightHeaders_def maxAgeString_def Let_def headersGet_res_set)

lemma res_get_headersObj: "headersObj a = headersObj b \<Longrightarrow> res_get a k = res_get b k"
  by (simp add: res_get_def)

lemma preflight_vary_value:
  assumes "\<not> allowListConfigured opts"
  shows "res_get r ''Vary'' = [] \<Longrightarrow>
           res_get (preflightHeaders opts needed r) ''Vary'' = '', access-control-request-headers''"
    and "res_get r ''Vary'' = '', origin'' \<Longrightarrow>
           res_get (preflightHeaders opts needed r) ''Vary''
             = '', origin, access-control-request-headers''"
proof -
  let ?m = "res_set r ''Access-Control-Allow-Methods'' (joinOrString (optionsMethods opts))"
  have g: "res_get (preflightHeaders opts needed r) ''Vary''
             = res_get (setVaryHeader ?m ''Access-Control-request-Headers'') ''Vary''"
    using preflight_vary [OF assms, of needed r] by (simp add: res_get_def)
  have m: "res_get ?m ''Vary'' = res_get r ''Vary''"
    by (simp add: res_get_res_set lower_names)
  show "res_get (preflightHeaders opts needed r) ''Vary'' = '', access-control-request-headers''"
    if "res_get r ''Vary'' = []"
    by (simp add: g setVaryHeader_get m that empty_item lower_names normalize_values)
  show "res_get (preflightHeaders opts needed r) ''Vary''
             = '', origin, access-control-request-headers''"
    if "res_get r ''Vary'' = '', origin''"
    by (simp add: g setVaryHeader_get m that Let_def lower_names normalize_values)
       (simp add: vary_values(2) [simplified] lower_names normalize_values)
qed

lemma cors_preflight:
  "headersGet hs ''origin'' = Some og \<Longrightarrow> og \<noteq> [] \<Longrightarrow>
     cors (Some opts) ''OPTIONS'' hs res
       = handleOptions opts
           (case headersGet hs ''access-control-request-headers'' of None \<Rightarrow> [] | Some v \<Rightarrow> v)
           (initCors opts og res)"
  by (simp add: cors_def Let_def)

lemma trigger_finished_by_cors:
  "cors corsConf (inMethod t) (inHeaders t) (newCafResponse (makeReqInfo t) lg) = (Normal (), r) \<Longrightarrow>
     finished r \<Longrightarrow> trigger sprintf corsConf lg api t = Normal r"
  by (simp add: trigger_def Let_def)

lemma logDebug_unfinished [simp]: "unfinished (logDebug r e) = unfinished r"
  by (simp add: unfinished_def logDebug_def)

lemma dispatch_no_match:
  assumes "unfinished r"
  shows "statusCode (dispatch sprintf ri None input r) = 404"
    and "finished (dispatch sprintf ri None input r)"
proof -
  let ?a = "notFound sprintf r True None []"
  let ?h = "HTTPError 404 (sprintf [] []) ''text/plain''"
  have n: "?a = res_assert sprintf r (Integer 404) True None []"
    by (simp add: notFound_def)
  have f: "fst ?a = Throw (JHTTPError ?h)"
    using res_assert_true(1) [OF assms, of sprintf 404 None "[]"] by (simp add: n template_def)
  have d: "dispatch sprintf ri None input r = snd (handleError (JHTTPError ?h) ri (snd ?a))"
    using f by (cases ?a) (simp add: dispatch_def)
  have h: "handleError (JHTTPError ?h) ri x = (Normal ?h, x)" for x
    by (rule handleError_low) simp_all
  have e: "dispatch sprintf ri None input r
             = snd (error sprintf r (Data (JNum (Integer 404))) (JStr (template None)) [])"
    by (simp only: d h snd_conv n res_assert_true(2) [OF assms])
  show "statusCode (dispatch sprintf ri None input r) = 404"
    by (simp only: e error_text(2) [OF assms])
  show "finished (dispatch sprintf ri None input r)"
    by (simp only: e error_text(3) [OF assms])
qed

lemma initCors_body [simp]: "body (initCors opts og r) = body r"
  by (simp add: initCors_def Let_def split: originOption.splits originItem.splits)

lemma initCors_streamCtrl [simp]: "streamCtrl (initCors opts og r) = streamCtrl r"
  by (simp add: initCors_def Let_def split: originOption.splits originItem.splits)

lemma corsResponse_preflight:
  assumes "inMethod t = ''OPTIONS''" "headersGet (inHeaders t) ''origin'' = Some og" "og \<noteq> []"
  shows "cors (Some opts) (inMethod t) (inHeaders t) (newCafResponse (makeReqInfo t) lg)
           = (Normal (), corsResponse (Some opts) lg t)"
    and "corsResponse (Some opts) lg t
           = snd (handleOptions opts (requestedHeaders (inHeaders t))
               (initCors opts og (newCafResponse (makeReqInfo t) lg)))"
proof -
  let ?r = "initCors opts og (newCafResponse (makeReqInfo t) lg)"
  have u: "unfinished ?r"
    by (simp add: newCafResponse_unfinished)
  have c: "cors (Some opts) (inMethod t) (inHeaders t) (newCafResponse (makeReqInfo t) lg)
             = handleOptions opts (requestedHeaders (inHeaders t)) ?r"
    using cors_preflight [OF assms(2,3)] by (simp add: assms(1) requestedHeaders_def)
  show "cors (Some opts) (inMethod t) (inHeaders t) (newCafResponse (makeReqInfo t) lg)
           = (Normal (), corsResponse (Some opts) lg t)"
    using handleOptions_end(1) [OF u, of opts "requestedHeaders (inHeaders t)"]
    by (cases "handleOptions opts (requestedHeaders (inHeaders t)) ?r")
       (simp add: corsResponse_def c)
  show "corsResponse (Some opts) lg t
           = snd (handleOptions opts (requestedHeaders (inHeaders t)) ?r)"
    by (simp add: corsResponse_def c)
qed

text \<open>
  C8 (as amended): for a request with CORS configured, an \<open>Origin\<close> header whose value is
  not empty and the method \<open>OPTIONS\<close>, \<open>trigger\<close> returns the response as \<open>cors\<close> left
  it, whatever the route table holds, so no handler runs. That response is finished, has
  status 204, no body (no chunk in its stream) and \<open>Content-Length: 0\<close>; \<open>Access-Control-Allow-Methods\<close> is the
  configured list, by default \<open>GET,HEAD,PUT,PATCH,POST,DELETE\<close>;
  \<open>Access-Control-Allow-Headers\<close> is the configured allow-list or else the
  \<open>Access-Control-Request-Headers\<close> of the request, and then \<open>Vary\<close> gets an entry for
  that header name; \<open>Access-Control-Max-Age\<close> is set when a max age is configured.
\<close>

theorem preflight:
  "inMethod t = ''OPTIONS'' \<Longrightarrow> headersGet (inHeaders t) ''origin'' = Some og \<Longrightarrow> og \<noteq> [] \<Longrightarrow>
     trigger sprintf (Some opts) lg api t = Normal (corsResponse (Some opts) lg t) \<and>
     statusCode (corsResponse (Some opts) lg t) = 204 \<and>
     finished (corsResponse (Some opts) lg t) \<and>
     body (corsResponse (Some opts) lg t) = None \<and>
     queue (streamCtrl (corsResponse (Some opts) lg t)) = [] \<and>
     headersGet (headersObj (corsResponse (Some opts) lg t)) ''Content-Length'' = Some ''0'' \<and>
     headersGet (headersObj (corsResponse (Some opts) lg t)) ''Access-Control-Allow-Methods''
       = Some (normalizeValue (joinOrString (optionsMethods opts))) \<and>
     (methods opts = None \<longrightarrow>
        headersGet (headersObj (corsResponse (Some opts) lg t)) ''Access-Control-Allow-Methods''
          = Some ''GET,HEAD,PUT,PATCH,POST,DELETE'') \<and>
     (allowListConfigured opts \<and> hasLength (allowedHeaders opts) \<longrightarrow>
        headersGet (headersObj (corsResponse (Some opts) lg t)) ''Access-Control-Allow-Headers''
          = Some (normalizeValue (joinOrString (the (allowedHeaders opts))))) \<and>
     (\<not> allowListConfigured opts \<and> requestedHeaders (inHeaders t) \<noteq> [] \<longrightarrow>
        headersGet (headersObj (corsResponse (Some opts) lg t)) ''Access-Control-Allow-Headers''
          = Some (normalizeValue (requestedHeaders (inHeaders t)))) \<and>
     (\<not> allowListConfigured opts \<longrightarrow>
        res_get (corsResponse (Some opts) lg t) ''Vary''
          = (if originIsAny (optionsOrigin opts) then '', access-control-request-headers''
             else '', origin, access-control-request-headers'')) \<and>
     (maxAge opts = Some (JNum n) \<and> String (JNum n) \<noteq> [] \<longrightarrow>
        headersGet (headersObj (corsResponse (Some opts) lg t)) ''Access-Control-Max-Age''
          = Some (normalizeValue (String (JNum n))))"
proof -
  assume a: "inMethod t = ''OPTIONS''" "headersGet (inHeaders t) ''origin'' = Some og" "og \<noteq> []"
  let ?r0 = "newCafResponse (makeReqInfo t) lg"
  let ?r1 = "initCors opts og ?r0"
  let ?nd = "requestedHeaders (inHeaders t)"
  let ?p = "preflightHeaders opts ?nd ?r1"
  let ?c = "corsResponse (Some opts) lg t"
  have u: "unfinished ?r1"
    by (simp add: newCafResponse_unfinished)
  have c: "?c = snd (handleOptions opts ?nd ?r1)"
    by (rule corsResponse_preflight(2) [OF a])
  have fin: "finished ?c"
    by (simp only: c handleOptions_end(2) [OF u])
  have hs: "headersObj ?c = headersObj (res_set ?p ''Content-Length'' ''0'')"
    by (simp only: c handleOptions_end(5) [OF u])
  have get: "headersGet (headersObj ?c) k
               = (if toLowerCase k = ''content-length'' then Some ''0''
                  else headersGet (headersObj ?p) k)" for k
    by (simp add: hs headersGet_res_set lower_names normalize_values)
  have v0: "res_get ?r0 ''Vary'' = []"
    by (simp add: res_get_def headersGet_def newCafResponse_fields)
  have v1: "res_get ?r1 ''Vary'' = (if originIsAny (optionsOrigin opts) then [] else '', origin'')"
    by (rule initCors_vary [OF v0])
  have vc: "res_get ?c ''Vary'' = res_get ?p ''Vary''"
    by (simp add: res_get_def get lower_names)
  have "trigger sprintf (Some opts) lg api t = Normal ?c"
    by (rule trigger_finished_by_cors [OF corsResponse_preflight(1) [OF a] fin])
  moreover have "statusCode ?c = 204"
    by (simp only: c handleOptions_end(3) [OF u])
  moreover have "body ?c = None"
    by (simp only: c handleOptions_end(4) [OF u] initCors_body newCafResponse_fields)
  moreover have "queue (streamCtrl ?c) = []"
    by (simp only: c handleOptions_end(6) [OF u] initCors_streamCtrl newCafResponse_fields)
  moreover have "headersGet (headersObj ?c) ''Content-Length'' = Some ''0''"
    by (simp add: get lower_names)
  moreover have m: "headersGet (headersObj ?c) ''Access-Control-Allow-Methods''
       = Some (normalizeValue (joinOrString (optionsMethods opts)))"
    by (simp add: get lower_names preflight_methods)
  moreover have "headersGet (headersObj ?c) ''Access-Control-Allow-Methods''
          = Some ''GET,HEAD,PUT,PATCH,POST,DELETE''" if "methods opts = None"
    by (simp add: m optionsMethods_def that joinOrString_def normalize_values)
  moreover have "headersGet (headersObj ?c) ''Access-Control-Allow-Headers''
          = Some (normalizeValue (joinOrString (the (allowedHeaders opts))))"
    if "allowListConfigured opts" "hasLength (allowedHeaders opts)"
    by (simp add: get lower_names preflight_allowed_configured [OF that])
  moreover have "headersGet (headersObj ?c) ''Access-Control-Allow-Headers''
          = Some (normalizeValue ?nd)"
    if "\<not> allowListConfigured opts" "?nd \<noteq> []"
    by (simp add: get lower_names preflight_allowed_echo [OF that])
  moreover have "res_get ?c ''Vary''
          = (if originIsAny (optionsOrigin opts) then '', access-control-request-headers''
             else '', origin, access-control-request-headers'')"
    if "\<not> allowListConfigured opts"
    using preflight_vary_value [OF that, of ?r1 ?nd] v1
    by (simp add: vc)
  moreover have "headersGet (headersObj ?c) ''Access-Control-Max-Age''
          = Some (normalizeValue (String (JNum n)))"
    if "maxAge opts = Some (JNum n)" "String (JNum n) \<noteq> []"
    by (simp add: get lower_names preflight_maxAge [OF that])
  moreover note fin
  ultimately show ?thesis
    by blast
qed

lemma trigger_no_match:
  assumes "cors corsConf (inMethod t) (inHeaders t) (newCafResponse (makeReqInfo t) lg) = (Normal (), r1)"
    and "unfinished r1"
    and "fst (matchRoute api (inMethod t) (inPath t) Map.empty) = None"
  shows "map_option statusCode (responseOf (trigger sprintf corsConf lg api t)) = Some 404"
proof -
  have nf: "\<not> finished r1"
    using assms(2) by (simp add: unfinished_def)
  have u: "unfinished (logDebug r1 (makeReqInfo t))"
    using assms(2) by simp
  show ?thesis
    by (simp add: trigger_def assms(1,3) nf Let_def dispatch_no_match(1) [OF u])
qed

lemma example_facts:
  "inMethod examplePreflight = ''OPTIONS''"
  "headersGet (inHeaders examplePreflight) ''origin'' = Some ''http://outsider.com''"
  "requestedHeaders (inHeaders examplePreflight) = ''x-token''"
  "methods exampleOptions = None"
  "\<not> allowListConfigured exampleOptions"
  "originIsAny (optionsOrigin exampleOptions)"
  "maxAge exampleOptions = Some (JNum (Integer 600))"
  "normalizeValue (joinOrString (optionsMethods exampleOptions)) = ''GET,HEAD,PUT,PATCH,POST,DELETE''"
  by (simp_all add: examplePreflight_def exampleOptions_def headersGet_def requestedHeaders_def
      lower_names allowListConfigured_def optionsOrigin_def optionsMethods_def joinOrString_def
      normalize_values)

lemma example_strings:
  "showInt 600 = ''600''"
  "normalizeValue ''600'' = ''600''"
  "normalizeValue ''x-token'' = ''x-token''"
  by (simp_all add: showInt_def showNat.simps digit_def normalizeValue_def isHttpWhiteSpace_def)

theorem preflight_witness:
  "inMethod examplePreflight = ''OPTIONS'' \<and>
   headersGet (inHeaders examplePreflight) ''origin'' = Some ''http://outsider.com'' \<and>
   trigger (\<lambda>fmt as. fmt) (Some exampleOptions) [] newAPI examplePreflight
     = Normal (corsResponse (Some exampleOptions) [] examplePreflight) \<and>
   statusCode (corsResponse (Some exampleOptions) [] examplePreflight) = 204 \<and>
   finished (corsResponse (Some exampleOptions) [] examplePreflight) \<and>
   headersGet (headersObj (corsResponse (Some exampleOptions) [] examplePreflight)) ''Content-Length''
     = Some ''0'' \<and>
   headersGet (headersObj (corsResponse (Some exampleOptions) [] examplePreflight))
     ''Access-Control-Allow-Methods'' = Some ''GET,HEAD,PUT,PATCH,POST,DELETE'' \<and>
   headersGet (headersObj (corsResponse (Some exampleOptions) [] examplePreflight))
     ''Access-Control-Allow-Headers'' = Some ''x-token'' \<and>
   res_get (corsResponse (Some exampleOptions) [] examplePreflight) ''Vary''
     = '', access-control-request-headers'' \<and>
   headersGet (headersObj (corsResponse (Some exampleOptions) [] examplePreflight))
     ''Access-Control-Max-Age'' = Some ''600''"
  using preflight [of examplePreflight "''http://outsider.com''" "\<lambda>fmt as. fmt" exampleOptions
      "[]" newAPI "Integer 600"]
  by (simp add: example_facts example_strings)

text \<open>
  C8 as stated fails: with an \<open>Origin\<close> header that is present and empty, \<open>cors\<close> does
  nothing, the request is dispatched, and with no matching route the response is 404, not
  204.
\<close>

theorem preflight_counterexample:
  "headersGet (inHeaders emptyOriginPreflight) ''origin'' = Some [] \<and>
   inMethod emptyOriginPreflight = ''OPTIONS'' \<and>
   map_option statusCode
     (responseOf (trigger (\<lambda>fmt as. fmt) (Some exampleOptions) [] newAPI emptyOriginPreflight))
     = Some 404"
proof -
  have o: "headersGet (inHeaders emptyOriginPreflight) ''origin'' = Some []"
    by (simp add: emptyOriginPreflight_def examplePreflight_def headersGet_def lower_names)
  have m: "inMethod emptyOriginPreflight = ''OPTIONS''"
    by (simp add: emptyOriginPreflight_def examplePreflight_def)
  have c: "cors (Some exampleOptions) (inMethod emptyOriginPreflight) (inHeaders emptyOriginPreflight)
             (newCafResponse (makeReqInfo emptyOriginPreflight) [])
           = (Normal (), newCafResponse (makeReqInfo emptyOriginPreflight) [])"
    by (simp add: cors_def o Let_def)
  have n: "fst (matchRoute newAPI (inMethod emptyOriginPreflight) (inPath emptyOriginPreflight) Map.empty)
             = None"
    by (simp add: matchRoute_def newAPI_def)
  show ?thesis
    using trigger_no_match [OF c newCafResponse_unfinished n] o m by simp
qed


section \<open>Properties of the route table\<close>

lemma addEndpoint_duplicate:
  "toUpperCase m @ '' '' @ p \<in> routes api \<Longrightarrow>
     addEndpoint nr api m p h = (Throw (duplicateRoute (toUpperCase m @ '' '' @ p)), api)"
  by (simp add: addEndpoint_def duplicateRoute_def Let_def)

lemma addEndpoint_cases:
  "addEndpoint nr api m p h =
     (let route = toUpperCase m @ '' '' @ p;
          a1 = api\<lparr>routes := insert route (routes api)\<rparr>;
          rs = (case dynamic api (toUpperCase m) of None \<Rightarrow> [] | Some l \<Rightarrow> l)
      in if route \<in> routes api then (Throw (duplicateRoute route), api)
         else if \<not> isDynamicPath p then (Normal (), a1\<lparr>static := (static api)(route \<mapsto> h)\<rparr>)
         else (case pathToRegexp nr p of
                 Throw e \<Rightarrow> (Throw e, a1\<lparr>dynamic := (dynamic api)(toUpperCase m \<mapsto> rs)\<rparr>)
               | Normal (re, ps) \<Rightarrow>
                   (Normal (), a1\<lparr>dynamic := (dynamic api)
                      (toUpperCase m \<mapsto> rs @ [\<lparr>handler = h, params = ps, regexp = re\<rparr>])\<rparr>)))"
  by (simp add: addEndpoint_def duplicateRoute_def isDynamicPath_def Let_def
      split: completion.splits)

lemma addEndpoint_records:
  "toUpperCase m @ '' '' @ p \<in> routes (snd (addEndpoint nr api m p h))"
  by (cases "pathToRegexp nr p") (auto simp add: addEndpoint_cases Let_def)

lemma addEndpoint_routes_mono: "routes api \<subseteq> routes (snd (addEndpoint nr api m p h))"
  by (cases "pathToRegexp nr p") (auto simp add: addEndpoint_cases Let_def)

lemma addEndpoint_fallback [simp]:
  "fallbackRoute (snd (addEndpoint nr api m p h)) = fallbackRoute api"
  by (cases "pathToRegexp nr p") (auto simp add: addEndpoint_cases Let_def)

lemma setFallbackRoute_set:
  "fallbackRoute api \<noteq> None \<Longrightarrow>
     setFallbackRoute api h
       = (Throw (assertionError (''Route for '' @ quote # ''ALL'' @ quote # '' is already defined'')), api)"
  by (simp add: setFallbackRoute_def)

lemma setFallbackRoute_routes [simp]: "routes (snd (setFallbackRoute api h)) = routes api"
  by (simp add: setFallbackRoute_def)

lemma setFallbackRoute_keeps: "fallbackRoute (snd (setFallbackRoute api h)) \<noteq> None"
  by (simp add: setFallbackRoute_def)

lemma register_routes: "routes api \<subseteq> routes (register nr api reg)"
  by (cases reg) (simp_all add: addEndpoint_routes_mono)

lemma register_fallback:
  "fallbackRoute api \<noteq> None \<Longrightarrow> fallbackRoute (register nr api reg) \<noteq> None"
  by (cases reg) (simp_all add: setFallbackRoute_def)

lemma registerAll_routes: "routes api \<subseteq> routes (registerAll nr api regs)"
proof (induction regs arbitrary: api)
  case Nil
  show ?case by (simp add: registerAll_def)
next
  case (Cons reg regs)
  have "routes api \<subseteq> routes (register nr api reg)"
    by (rule register_routes)
  also have "\<dots> \<subseteq> routes (registerAll nr (register nr api reg) regs)"
    by (rule Cons.IH)
  finally show ?case
    by (simp add: registerAll_def)
qed

lemma registerAll_fallback:
  "fallbackRoute api \<noteq> None \<Longrightarrow> fallbackRoute (registerAll nr api regs) \<noteq> None"
proof (induction regs arbitrary: api)
  case Nil
  then show ?case by (simp add: registerAll_def)
next
  case (Cons reg regs)
  from Cons.prems have "fallbackRoute (register nr api reg) \<noteq> None"
    by (rule register_fallback)
  then have "fallbackRoute (registerAll nr (register nr api reg) regs) \<noteq> None"
    by (rule Cons.IH)
  then show ?case
    by (simp add: registerAll_def)
qed









lemma addEndpoint_static:
  "toUpperCase m @ '' '' @ p \<notin> routes api \<Longrightarrow> \<not> isDynamicPath p \<Longrightarrow>
     addEndpoint nr api m p h
       = (Normal (), api\<lparr>routes := insert (toUpperCase m @ '' '' @ p) (routes api),
                           static := (static api)(toUpperCase m @ '' '' @ p \<mapsto> h)\<rparr>)"
  by (simp add: addEndpoint_cases Let_def)










lemma static_path_foo: "\<not> isDynamicPath ''/foo''" "\<not> isDynamicPath ''/bar''"
  by (simp_all add: isDynamicPath_def)

lemma upper_verbs: "toUpperCase ''post'' = ''POST''" "toUpperCase ''get'' = ''GET''"
  by (simp_all add: evalString)

















text \<open>
  C10: \<open>addEndpoint\<close> for a method and path whose key is already in \<open>routes\<close> throws the
  assertion error of a duplicate route and leaves the table as it was. Every successful
  \<open>addEndpoint\<close> records its key, and no later registration removes it, so registering the
  same method and path again, after any further registrations, throws that error and
  changes nothing. Likewise \<open>setFallbackRoute\<close> throws and changes nothing when a fallback
  route is set, which is the case after any successful \<open>setFallbackRoute\<close>.
\<close>

theorem route_conflict:
  "(toUpperCase m @ '' '' @ p \<in> routes api \<longrightarrow>
      addEndpoint nr api m p h = (Throw (duplicateRoute (toUpperCase m @ '' '' @ p)), api)) \<and>
   (fst (addEndpoint nr api m p h) = Normal () \<longrightarrow>
      addEndpoint nr (registerAll nr (snd (addEndpoint nr api m p h)) regs) m p h'
        = (Throw (duplicateRoute (toUpperCase m @ '' '' @ p)),
           registerAll nr (snd (addEndpoint nr api m p h)) regs)) \<and>
   (fallbackRoute api \<noteq> None \<longrightarrow>
      setFallbackRoute api h = (Throw (duplicateRoute ''ALL''), api)) \<and>
   (fst (setFallbackRoute api h) = Normal () \<longrightarrow>
      setFallbackRoute (registerAll nr (snd (setFallbackRoute api h)) regs) h'
        = (Throw (duplicateRoute ''ALL''), registerAll nr (snd (setFallbackRoute api h)) regs))"
proof (intro conjI impI)
  assume "toUpperCase m @ '' '' @ p \<in> routes api"
  then show "addEndpoint nr api m p h = (Throw (duplicateRoute (toUpperCase m @ '' '' @ p)), api)"
    by (rule addEndpoint_duplicate)
next
  let ?a = "snd (addEndpoint nr api m p h)"
  have "toUpperCase m @ '' '' @ p \<in> routes ?a"
    by (rule addEndpoint_records)
  then have "toUpperCase m @ '' '' @ p \<in> routes (registerAll nr ?a regs)"
    using registerAll_routes by blast
  then show "addEndpoint nr (registerAll nr ?a regs) m p h'
        = (Throw (duplicateRoute (toUpperCase m @ '' '' @ p)), registerAll nr ?a regs)"
    by (rule addEndpoint_duplicate)
next
  assume "fallbackRoute api \<noteq> None"
  then show "setFallbackRoute api h = (Throw (duplicateRoute ''ALL''), api)"
    by (simp add: setFallbackRoute_set duplicateRoute_def)
next
  let ?a = "snd (setFallbackRoute api h)"
  have "fallbackRoute ?a \<noteq> None"
    by (rule setFallbackRoute_keeps)
  then have "fallbackRoute (registerAll nr ?a regs) \<noteq> None"
    by (rule registerAll_fallback)
  then show "setFallbackRoute (registerAll nr ?a regs) h'
        = (Throw (duplicateRoute ''ALL''), registerAll nr ?a regs)"
    by (simp add: setFallbackRoute_set duplicateRoute_def)
qed

text \<open>
  An instance: \<open>post /foo\<close> registered, then \<open>get /bar\<close>, then \<open>post /foo\<close> again; and a
  fallback route set twice.
\<close>

theorem route_conflict_witness:
  "fst (addEndpoint exampleRegExp newAPI ''post'' ''/foo'' ''first'') = Normal () \<and>
   addEndpoint exampleRegExp
     (registerAll exampleRegExp (snd (addEndpoint exampleRegExp newAPI ''post'' ''/foo'' ''first''))
        [AddEndpoint ''get'' ''/bar'' ''second''])
     ''post'' ''/foo'' ''third''
     = (Throw (duplicateRoute ''POST /foo''),
        registerAll exampleRegExp (snd (addEndpoint exampleRegExp newAPI ''post'' ''/foo'' ''first''))
          [AddEndpoint ''get'' ''/bar'' ''second'']) \<and>
   fst (setFallbackRoute (newAPI :: string API) ''first'') = Normal () \<and>
   setFallbackRoute (registerAll exampleRegExp (snd (setFallbackRoute newAPI ''first'')) []) ''second''
     = (Throw (duplicateRoute ''ALL''),
        registerAll exampleRegExp (snd (setFallbackRoute newAPI ''first'')) [])"
proof -
  have a: "fst (addEndpoint exampleRegExp newAPI ''post'' ''/foo'' ''first'') = Normal ()"
    by (simp add: addEndpoint_static static_path_foo upper_verbs newAPI_def)
  have b: "fst (setFallbackRoute (newAPI :: string API) ''first'') = Normal ()"
    by (simp add: setFallbackRoute_def newAPI_def)
  show ?thesis
    using route_conflict [of "''post''" "''/foo''" newAPI exampleRegExp "''first''"
        "[AddEndpoint ''get'' ''/bar'' ''second'']" "''third''"]
      route_conflict [of "''post''" "''/foo''" newAPI exampleRegExp "''first''" "[]" "''second''"]
      a b
    by (simp add: upper_verbs)
qed

end
